theory Spec2Isabelle
  imports Complex_Main
begin

section \<open>JavaScript numbers\<close>

text \<open>
  Every number of the backend is an IEEE-754 binary64 value. The handlers divide scores and
  counts and multiply the quotient by 100 (\<^verbatim>\<open>(totalScore / maxScore) * 100\<close>), so the rounding
  of each operation is part of what they compute. A number is a rational (the finite
  doubles are among them, and nothing below needs a stored value to be one), an infinity
  or NaN. The sign of zero is not kept: \<^verbatim>\<open>-0\<close> compares equal to
  \<^verbatim>\<open>0\<close> and is serialised as \<^verbatim>\<open>0\<close>, and the divisors below are counts or sums that start
  from \<^verbatim>\<open>0\<close>, which are never a negative zero.
\<close>

datatype number = Fin rat | PosInf | NegInf | NaN

text \<open>The exponent \<open>e\<close> of a positive rational: \<open>2^e \<le> x < 2^(e+1)\<close>.\<close>

function binade :: "rat \<Rightarrow> int" where
  "binade x = (if x \<le> 0 then 0
               else if 2 \<le> x then binade (x / 2) + 1
               else if x < 1 then binade (x * 2) - 1
               else 0)"
  by pat_completeness auto
termination
proof (relation "measure (\<lambda>x. 2 * nat \<lceil>1 / x\<rceil> + nat \<lceil>x\<rceil>)")
  show "wf (measure (\<lambda>x::rat. 2 * nat \<lceil>1 / x\<rceil> + nat \<lceil>x\<rceil>))"
    by simp
next
  fix x :: rat
  assume a: "\<not> x \<le> 0" "2 \<le> x"
  have 1: "\<lceil>1 / (x / 2)\<rceil> = 1" using a by (simp add: ceiling_eq_iff)
  have 2: "\<lceil>1 / x\<rceil> = 1" using a by (simp add: ceiling_eq_iff)
  have 3: "\<lceil>x / 2\<rceil> < \<lceil>x\<rceil>" using a by (simp add: ceiling_less_iff) linarith
  have 4: "0 < \<lceil>x\<rceil>" using a by simp
  show "(x / 2, x) \<in> measure (\<lambda>x. 2 * nat \<lceil>1 / x\<rceil> + nat \<lceil>x\<rceil>)"
    using 1 2 3 4 by simp
next
  fix x :: rat
  assume a: "\<not> x \<le> 0" "\<not> 2 \<le> x" "x < 1"
  show "(x * 2, x) \<in> measure (\<lambda>x. 2 * nat \<lceil>1 / x\<rceil> + nat \<lceil>x\<rceil>)"
  proof -
    have n2: "2 \<le> \<lceil>1 / x\<rceil>" using a by (simp add: le_ceiling_iff)
    have "1 / x \<le> of_int \<lceil>1 / x\<rceil>" by (rule le_of_int_ceiling)
    then have "1 / (x * 2) \<le> of_int \<lceil>1 / x\<rceil> / 2" by simp
    also have "\<dots> \<le> of_int (\<lceil>1 / x\<rceil> - 1)" using n2 by simp
    finally have h1: "\<lceil>1 / (x * 2)\<rceil> \<le> \<lceil>1 / x\<rceil> - 1" by (simp only: ceiling_le_iff)
    have h2: "\<lceil>x * 2\<rceil> \<le> 2" using a by (simp add: ceiling_le_iff)
    have h3: "\<lceil>x\<rceil> = 1" using a by (simp add: ceiling_eq_iff)
    have p1: "0 < \<lceil>1 / (x * 2)\<rceil>" using a by simp
    have p2: "0 < \<lceil>x * 2\<rceil>" using a by simp
    have "2 * \<lceil>1 / (x * 2)\<rceil> + \<lceil>x * 2\<rceil> < 2 * \<lceil>1 / x\<rceil> + \<lceil>x\<rceil>"
      using h1 h2 h3 by linarith
    then have "nat (2 * \<lceil>1 / (x * 2)\<rceil> + \<lceil>x * 2\<rceil>) < nat (2 * \<lceil>1 / x\<rceil> + \<lceil>x\<rceil>)"
      using p1 p2 by linarith
    then show ?thesis unfolding in_measure using n2 p1 p2 h3
      by arith
  qed
qed

text \<open>Round to the nearest integer, a tie to the even one (the rounding of binary64).\<close>

definition rne :: "rat \<Rightarrow> int" where
  "rne x = (let f = \<lfloor>x\<rfloor>; d = x - of_int f
            in if d < 1 / 2 then f
               else if 1 / 2 < d then f + 1
               else if even f then f else f + 1)"

text \<open>
  The double nearest to a rational: 53 significant bits, exponents from \<open>-1022\<close>
  (below it the spacing stays \<open>2^-1074\<close>) and an infinity once the rounded value reaches
  \<open>2^1024\<close>.
\<close>

definition fl :: "rat \<Rightarrow> number" where
  "fl x = (if x = 0 then Fin 0
           else let e = max (binade \<bar>x\<bar>) (- 1022);
                    ulp = 2 powi (e - 52);
                    r = of_int (rne (x / ulp)) * ulp
                in if 1024 \<le> binade \<bar>r\<bar> then (if 0 < x then PosInf else NegInf)
                   else Fin r)"

text \<open>\<^verbatim>\<open>a / b\<close>. Dividing by zero gives an infinity, and \<^verbatim>\<open>0 / 0\<close> is NaN.\<close>

fun num_div :: "number \<Rightarrow> number \<Rightarrow> number" where
  "num_div (Fin a) (Fin b) =
     (if b = 0 then (if a = 0 then NaN else if 0 < a then PosInf else NegInf)
      else fl (a / b))"
| "num_div (Fin a) PosInf = Fin 0"
| "num_div (Fin a) NegInf = Fin 0"
| "num_div PosInf (Fin b) = (if 0 \<le> b then PosInf else NegInf)"
| "num_div NegInf (Fin b) = (if 0 \<le> b then NegInf else PosInf)"
| "num_div _ _ = NaN"

text \<open>\<^verbatim>\<open>a * b\<close>.\<close>

fun num_mul :: "number \<Rightarrow> number \<Rightarrow> number" where
  "num_mul (Fin a) (Fin b) = fl (a * b)"
| "num_mul NaN _ = NaN"
| "num_mul _ NaN = NaN"
| "num_mul (Fin a) PosInf = (if a = 0 then NaN else if 0 < a then PosInf else NegInf)"
| "num_mul (Fin a) NegInf = (if a = 0 then NaN else if 0 < a then NegInf else PosInf)"
| "num_mul PosInf (Fin b) = (if b = 0 then NaN else if 0 < b then PosInf else NegInf)"
| "num_mul NegInf (Fin b) = (if b = 0 then NaN else if 0 < b then NegInf else PosInf)"
| "num_mul PosInf PosInf = PosInf"
| "num_mul NegInf NegInf = PosInf"
| "num_mul PosInf NegInf = NegInf"
| "num_mul NegInf PosInf = NegInf"

text \<open>\<^verbatim>\<open>a + b\<close>.\<close>

fun num_add :: "number \<Rightarrow> number \<Rightarrow> number" where
  "num_add (Fin a) (Fin b) = fl (a + b)"
| "num_add NaN _ = NaN"
| "num_add _ NaN = NaN"
| "num_add PosInf NegInf = NaN"
| "num_add NegInf PosInf = NaN"
| "num_add PosInf _ = PosInf"
| "num_add _ PosInf = PosInf"
| "num_add NegInf _ = NegInf"
| "num_add _ NegInf = NegInf"

text \<open>\<^verbatim>\<open>a - b\<close>, which binary64 computes as \<^verbatim>\<open>a + (-b)\<close>.\<close>

fun num_neg :: "number \<Rightarrow> number" where
  "num_neg (Fin a) = Fin (- a)"
| "num_neg PosInf = NegInf"
| "num_neg NegInf = PosInf"
| "num_neg NaN = NaN"

definition num_sub :: "number \<Rightarrow> number \<Rightarrow> number" where
  "num_sub a b = num_add a (num_neg b)"

text \<open>\<^verbatim>\<open>a >= b\<close>: false as soon as one side is NaN.\<close>

fun num_ge :: "number \<Rightarrow> number \<Rightarrow> bool" where
  "num_ge (Fin a) (Fin b) = (b \<le> a)"
| "num_ge NaN _ = False"
| "num_ge _ NaN = False"
| "num_ge PosInf _ = True"
| "num_ge _ NegInf = True"
| "num_ge _ _ = False"

text \<open>
  \<^verbatim>\<open>Math.round\<close>: the nearest integer, a tie towards \<open>+\<infinity>\<close>; infinities and NaN are
  returned as they are.
\<close>

fun Math_round :: "number \<Rightarrow> number" where
  "Math_round (Fin x) = Fin (of_int \<lfloor>x + 1 / 2\<rfloor>)"
| "Math_round n = n"

text \<open>
  Points, scores and passing scores are numbers. Two kinds of value stay integers in the
  model, because binary64 holds them exactly: the time value of a \<^verbatim>\<open>Date\<close> (whole
  milliseconds, at most \<open>8.64 * 10^15\<close> in absolute value) and a counter that is incremented
  once per element of an array (an array has fewer than \<open>2^32\<close> elements).
\<close>

definition num_of_int :: "int \<Rightarrow> number" where
  "num_of_int i = Fin (of_int i)"

definition num_of_nat :: "nat \<Rightarrow> number" where
  "num_of_nat n = Fin (of_nat n)"

section \<open>Array helpers\<close>

text \<open>\<^verbatim>\<open>Array.prototype.findIndex\<close>; \<open>None\<close> stands for the result \<^verbatim>\<open>-1\<close>.\<close>

fun findIndex :: "('a \<Rightarrow> bool) \<Rightarrow> 'a list \<Rightarrow> nat option" where
  "findIndex p [] = None"
| "findIndex p (x # xs) = (if p x then Some 0 else map_option Suc (findIndex p xs))"

section \<open>Documents\<close>

type_synonym object_id = string
type_synonym timestamp = int

text \<open>A Mixed value: a number (the index of an option) or a string (a short answer).\<close>

datatype mixed = MNumber rat | MString string

datatype user_role = Student | Teacher | Admin

record user =
  user_id :: object_id
  role :: user_role

subsection \<open>Quiz (quiz.model.js)\<close>

record question =
  questionText :: string
  correctAnswer :: mixed
  points :: number

record graded_answer =
  questionIndex :: nat
  givenAnswer :: mixed
  isCorrect :: bool
  pointsEarned :: number

record attempt =
  student :: object_id
  score :: number
  maxScore :: number
  passed :: bool
  answers :: "graded_answer list"
  startedAt :: timestamp
  completedAt :: "timestamp option"
  timeSpent :: number

record quiz =
  title :: string
  quiz_course :: object_id
  passingScore :: number
  isActive :: bool
  questions :: "question list"
  attempts :: "attempt list"

subsection \<open>Course (course.model.js)\<close>

datatype enrollment_status = Pending | Approved | Rejected

record quiz_score =
  quizId :: object_id
  quizScore_score :: number
  quizScore_maxScore :: number
  quizScore_completedAt :: timestamp

record progress_record =
  completedModules :: "rat list"
  completedLessons :: "string list"
  quizScores :: "quiz_score list"
  completionPercentage :: number
  lastAccessedAt :: timestamp

record enrollment =
  enrolled_student :: object_id
  enrollmentStatus :: enrollment_status
  progress :: progress_record

record material =
  material_id :: object_id
  isRequired :: bool

record course_module =
  module_order :: rat
  materials :: "material list"

record course_quiz =
  course_quiz_id :: object_id
  course_quiz_passingScore :: number

record course =
  instructor :: object_id
  students :: "enrollment list"
  modules :: "course_module list"
  quizzes :: "course_quiz list"

subsection \<open>The two collections\<close>

record db =
  quiz_docs :: "object_id \<rightharpoonup> quiz"
  course_docs :: "object_id \<rightharpoonup> course"

text \<open>
  What a handler answers when it does not succeed: the status 404, 403, 400 or 500 with the
  message of its JSON body.
\<close>

datatype failure =
  NotFound string | Forbidden string | BadRequest string | ServerError string

section \<open>calculateStudentProgress (course.model.js)\<close>

text \<open>The body of the inner \<^verbatim>\<open>forEach\<close> over the materials of a module.\<close>

definition count_material :: "string list \<Rightarrow> material \<Rightarrow> nat \<times> nat \<Rightarrow> nat \<times> nat" where
  "count_material lessons m acc =
     (case acc of (totalRequiredItems, completedItems) \<Rightarrow>
        if isRequired m
        then (totalRequiredItems + 1,
              if material_id m \<in> set lessons then completedItems + 1 else completedItems)
        else (totalRequiredItems, completedItems))"

text \<open>
  The body of the \<^verbatim>\<open>forEach\<close> over the course's quizzes. The recorded score is
  compared with \<^verbatim>\<open>quiz.passingScore\<close> as it is: \<^verbatim>\<open>quizScore.score >= quiz.passingScore\<close>.
\<close>

definition count_quiz :: "quiz_score list \<Rightarrow> course_quiz \<Rightarrow> nat \<times> nat \<Rightarrow> nat \<times> nat" where
  "count_quiz scores q acc =
     (case acc of (totalRequiredItems, completedItems) \<Rightarrow>
        (totalRequiredItems + 1,
         case find (\<lambda>s. quizId s = course_quiz_id q) scores of
           None \<Rightarrow> completedItems
         | Some quizScore \<Rightarrow>
             if num_ge (quizScore_score quizScore) (course_quiz_passingScore q)
             then completedItems + 1 else completedItems))"

definition count_items :: "course \<Rightarrow> progress_record \<Rightarrow> nat \<times> nat" where
  "count_items c p =
     fold (count_quiz (quizScores p)) (quizzes c)
       (fold (\<lambda>m. fold (count_material (completedLessons p)) (materials m)) (modules c) (0, 0))"

definition percentage_of :: "nat \<times> nat \<Rightarrow> number" where
  "percentage_of acc =
     (case acc of (totalRequiredItems, completedItems) \<Rightarrow>
        if 0 < totalRequiredItems
        then Math_round (num_mul (num_div (num_of_nat completedItems) (num_of_nat totalRequiredItems))
                                 (Fin 100))
        else Fin 0)"

text \<open>
  Returns the percentage and the course as saved. A student who is not in
  \<^verbatim>\<open>this.students\<close> gets \<^verbatim>\<open>0\<close> and nothing is written.
\<close>

definition calculateStudentProgress :: "object_id \<Rightarrow> course \<Rightarrow> number \<times> course" where
  "calculateStudentProgress studentId c =
     (case findIndex (\<lambda>s. enrolled_student s = studentId) (students c) of
        None \<Rightarrow> (Fin 0, c)
      | Some studentIndex \<Rightarrow>
          let student = students c ! studentIndex;
              percentage = percentage_of (count_items c (progress student))
          in (percentage,
              c\<lparr>students := (students c)
                   [studentIndex := student\<lparr>progress :=
                      (progress student)\<lparr>completionPercentage := percentage\<rparr>\<rparr>]\<rparr>))"

section \<open>Quiz handlers (quiz.controller.js)\<close>

subsection \<open>startQuizAttempt\<close>

text \<open>
  The body of a successful answer: status 200 with the attempt that is still open, or
  status 201 with the attempt found after the push and the save. (The copy of the quiz that
  status 201 sends along is not modelled.)
\<close>

datatype start_data = Continuing attempt | Started "attempt option"

definition open_attempt_of :: "user \<Rightarrow> attempt \<Rightarrow> bool" where
  "open_attempt_of u a \<longleftrightarrow> student a = user_id u \<and> completedAt a = None"

text \<open>
  \<^verbatim>\<open>quiz.questions.reduce((sum, q) => sum + q.points, 0)\<close>: the points are added from left
  to right, each addition rounded to a double.
\<close>

definition totalPoints :: "question list \<Rightarrow> number" where
  "totalPoints qs = foldl (\<lambda>sum q. num_add sum (points q)) (Fin 0) qs"

text \<open>
  The attempt pushed by \<^verbatim>\<open>quiz.attempts.push\<close>; \<^verbatim>\<open>passed\<close>, \<^verbatim>\<open>timeSpent\<close> and
  \<^verbatim>\<open>completedAt\<close> get the defaults of the schema.
\<close>

definition new_attempt :: "user \<Rightarrow> quiz \<Rightarrow> timestamp \<Rightarrow> attempt" where
  "new_attempt u q now =
     \<lparr>student = user_id u, score = Fin 0, maxScore = totalPoints (questions q), passed = False,
      answers = [], startedAt = now, completedAt = None, timeSpent = Fin 0\<rparr>"

text \<open>
  \<^verbatim>\<open>s.student.toString() === req.user.id && s.enrollmentStatus === "approved"\<close>
\<close>

definition approved_entry :: "user \<Rightarrow> enrollment \<Rightarrow> bool" where
  "approved_entry u s \<longleftrightarrow> enrolled_student s = user_id u \<and> enrollmentStatus s = Approved"

definition isEnrolled :: "user \<Rightarrow> course \<Rightarrow> bool" where
  "isEnrolled u c \<longleftrightarrow> list_ex (approved_entry u) (students c)"

definition startQuizAttempt :: "user \<Rightarrow> object_id \<Rightarrow> timestamp \<Rightarrow> db \<Rightarrow> (failure + start_data) \<times> db" where
  "startQuizAttempt u qid now d =
     (case quiz_docs d qid of
        None \<Rightarrow> (Inl (NotFound ''Quiz not found''), d)
      | Some q \<Rightarrow>
         (case course_docs d (quiz_course q) of
            None \<Rightarrow> (Inl (NotFound ''Associated course not found''), d)
          | Some c \<Rightarrow>
             if \<not> isEnrolled u c
             then (Inl (Forbidden ''Not authorized to attempt this quiz''), d)
             else if \<not> isActive q
             then (Inl (BadRequest ''This quiz is not currently active''), d)
             else
               (case find (open_attempt_of u) (attempts q) of
                  Some existingAttempt \<Rightarrow> (Inr (Continuing existingAttempt), d)
                | None \<Rightarrow>
                    let q' = q\<lparr>attempts := attempts q @ [new_attempt u q now]\<rparr>
                    in (Inr (Started (find (open_attempt_of u) (attempts q'))),
                        d\<lparr>quiz_docs := (quiz_docs d)(qid \<mapsto> q')\<rparr>))))"

subsection \<open>submitQuizAttempt\<close>

datatype exn = TypeError | ReferenceError

text \<open>
  \<^verbatim>\<open>answers.forEach((answer, index) => ...)\<close>. An answer beyond the last question reads
  \<^verbatim>\<open>question.correctAnswer\<close> of \<^verbatim>\<open>undefined\<close>, which throws.
\<close>

fun gradeAnswers ::
  "question list \<Rightarrow> nat \<Rightarrow> mixed list \<Rightarrow> number \<Rightarrow> graded_answer list
     \<Rightarrow> exn + number \<times> graded_answer list"
where
  "gradeAnswers qs index [] totalScore gradedAnswers = Inr (totalScore, gradedAnswers)"
| "gradeAnswers qs index (answer # rest) totalScore gradedAnswers =
     (if index < length qs
      then
        let question = qs ! index;
            correct = (answer = correctAnswer question);
            earned = (if correct then points question else Fin 0)
        in gradeAnswers qs (index + 1) rest (num_add totalScore earned)
             (gradedAnswers @
                [\<lparr>questionIndex = index, givenAnswer = answer, isCorrect = correct,
                  pointsEarned = earned\<rparr>])
      else Inl TypeError)"

text \<open>\<^verbatim>\<open>(totalScore / maxScore) * 100 >= quiz.passingScore\<close>\<close>

definition passes :: "number \<Rightarrow> number \<Rightarrow> number \<Rightarrow> bool" where
  "passes totalScore maxScore' threshold =
     num_ge (num_mul (num_div totalScore maxScore') (Fin 100)) threshold"

text \<open>\<^verbatim>\<open>Math.round((totalScore / maxScore) * 100)\<close>\<close>

definition percentage :: "number \<Rightarrow> number \<Rightarrow> number" where
  "percentage totalScore maxScore' =
     Math_round (num_mul (num_div totalScore maxScore') (Fin 100))"

text \<open>
  The statements guarded by \<^verbatim>\<open>studentData.passed\<close>, as a function of the course document
  they read and save: replace the student's score for this quiz or push it, then
  recompute the completion percentage.
\<close>

definition record_quiz_score ::
  "object_id \<Rightarrow> object_id \<Rightarrow> number \<Rightarrow> number \<Rightarrow> timestamp \<Rightarrow> course \<Rightarrow> course" where
  "record_quiz_score userId qid totalScore maxScore' now c =
     (case findIndex (\<lambda>s. enrolled_student s = userId) (students c) of
        None \<Rightarrow> c
      | Some courseStudentIndex \<Rightarrow>
          let quizScore = \<lparr>quizId = qid, quizScore_score = totalScore,
                           quizScore_maxScore = maxScore', quizScore_completedAt = now\<rparr>;
              s = students c ! courseStudentIndex;
              scores = quizScores (progress s);
              scores' = (case findIndex (\<lambda>x. quizId x = qid) scores of
                           Some existingScoreIndex \<Rightarrow> scores[existingScoreIndex := quizScore]
                         | None \<Rightarrow> scores @ [quizScore])
          in snd (calculateStudentProgress userId
                    (c\<lparr>students := (students c)
                         [courseStudentIndex := s\<lparr>progress := (progress s)\<lparr>quizScores := scores'\<rparr>\<rparr>]\<rparr>)))"

text \<open>
  What the identifier \<^verbatim>\<open>course\<close> is bound to where those statements run. The handler
  declares \<^verbatim>\<open>answers\<close>, \<^verbatim>\<open>quiz\<close>, \<^verbatim>\<open>attemptIndex\<close>, \<^verbatim>\<open>totalScore\<close>, \<^verbatim>\<open>maxScore\<close>,
  \<^verbatim>\<open>gradedAnswers\<close> and \<^verbatim>\<open>studentData\<close>, and the module imports \<^verbatim>\<open>Quiz\<close>, \<^verbatim>\<open>Course\<close> and
  \<^verbatim>\<open>Notification\<close>: nothing is named \<^verbatim>\<open>course\<close> (every other handler of the file starts
  with \<^verbatim>\<open>const course = await Course.findById(...)\<close>). Reading it throws a ReferenceError.
\<close>

definition course_in_scope :: "exn + object_id \<times> course" where
  "course_in_scope = Inl ReferenceError"

record submit_data =
  data_attempt :: attempt
  data_score :: number
  data_maxScore :: number
  data_percentage :: number
  data_passed :: bool

text \<open>
  \<open>t1\<close> and \<open>t2\<close> are the two readings of the clock that set \<^verbatim>\<open>completedAt\<close> and
  \<^verbatim>\<open>timeSpent\<close>, \<open>t3\<close> the one for the recorded score. The quiz is saved before the course is
  touched; whatever throws is answered with status 500 by the handler's \<^verbatim>\<open>catch\<close>.
\<close>

definition submitQuizAttempt ::
  "user \<Rightarrow> object_id \<Rightarrow> mixed list \<Rightarrow> timestamp \<Rightarrow> timestamp \<Rightarrow> timestamp \<Rightarrow> db
     \<Rightarrow> (failure + submit_data) \<times> db" where
  "submitQuizAttempt u qid answers' t1 t2 t3 d =
     (case quiz_docs d qid of
        None \<Rightarrow> (Inl (NotFound ''Quiz not found''), d)
      | Some q \<Rightarrow>
         (case findIndex (open_attempt_of u) (attempts q) of
            None \<Rightarrow> (Inl (NotFound ''No active attempt found''), d)
          | Some attemptIndex \<Rightarrow>
             (case gradeAnswers (questions q) 0 answers' (Fin 0) [] of
                Inl _ \<Rightarrow> (Inl (ServerError ''Error submitting quiz attempt''), d)
              | Inr (totalScore, gradedAnswers) \<Rightarrow>
                  let maxScore' = totalPoints (questions q);
                      a = attempts q ! attemptIndex;
                      a' = a\<lparr>answers := gradedAnswers, score := totalScore, maxScore := maxScore',
                             completedAt := Some t1,
                             timeSpent := num_div (num_of_int (t2 - startedAt a)) (Fin 1000),
                             passed := passes totalScore maxScore' (passingScore q)\<rparr>;
                      q' = q\<lparr>attempts := (attempts q)[attemptIndex := a']\<rparr>;
                      d' = d\<lparr>quiz_docs := (quiz_docs d)(qid \<mapsto> q')\<rparr>;
                      ok = Inr \<lparr>data_attempt = a', data_score = totalScore, data_maxScore = maxScore',
                                data_percentage = percentage totalScore maxScore',
                                data_passed = passed a'\<rparr>
                  in if passed a'
                     then
                       (case course_in_scope of
                          Inl _ \<Rightarrow> (Inl (ServerError ''Error submitting quiz attempt''), d')
                        | Inr (cid, c) \<Rightarrow>
                            (ok, d'\<lparr>course_docs := (course_docs d')
                                     (cid \<mapsto> record_quiz_score (user_id u) qid totalScore maxScore' t3 c)\<rparr>))
                     else (ok, d'))))"

subsection \<open>updateQuiz and deleteQuiz\<close>

text \<open>
  \<^verbatim>\<open>Quiz.findByIdAndUpdate(id, req.body, {new: true, runValidators: true})\<close> belongs to
  Mongoose: the request body is taken as the function it applies to the stored quiz,
  \<open>None\<close> where a validator rejects the result.
\<close>

definition updateQuiz ::
  "user \<Rightarrow> object_id \<Rightarrow> (quiz \<Rightarrow> quiz option) \<Rightarrow> db \<Rightarrow> (failure + quiz) \<times> db" where
  "updateQuiz u qid body d =
     (case quiz_docs d qid of
        None \<Rightarrow> (Inl (NotFound ''Quiz not found''), d)
      | Some q \<Rightarrow>
         (case course_docs d (quiz_course q) of
            None \<Rightarrow> (Inl (ServerError ''Error updating quiz''), d)
          | Some c \<Rightarrow>
             if instructor c \<noteq> user_id u \<and> role u \<noteq> Admin
             then (Inl (Forbidden ''Not authorized to update this quiz''), d)
             else if 0 < length (attempts q)
             then (Inl (BadRequest ''Cannot update quiz after students have attempted it''), d)
             else
               (case body q of
                  None \<Rightarrow> (Inl (ServerError ''Error updating quiz''), d)
                | Some updatedQuiz \<Rightarrow>
                    (Inr updatedQuiz, d\<lparr>quiz_docs := (quiz_docs d)(qid \<mapsto> updatedQuiz)\<rparr>))))"

definition deleteQuiz :: "user \<Rightarrow> object_id \<Rightarrow> db \<Rightarrow> (failure + unit) \<times> db" where
  "deleteQuiz u qid d =
     (case quiz_docs d qid of
        None \<Rightarrow> (Inl (NotFound ''Quiz not found''), d)
      | Some q \<Rightarrow>
         (case course_docs d (quiz_course q) of
            None \<Rightarrow> (Inl (ServerError ''Error deleting quiz''), d)
          | Some c \<Rightarrow>
             if instructor c \<noteq> user_id u \<and> role u \<noteq> Admin
             then (Inl (Forbidden ''Not authorized to delete this quiz''), d)
             else if 0 < length (attempts q)
             then (Inl (BadRequest ''Cannot delete quiz after students have attempted it''), d)
             else (Inr (), d\<lparr>quiz_docs := (quiz_docs d)(qid := None)\<rparr>)))"

subsection \<open>getQuizResults\<close>

record attempt_result =
  result_student :: object_id
  result_score :: number
  result_maxScore :: number
  result_percentage :: number
  result_passed :: bool
  result_answers :: "graded_answer list"
  result_startedAt :: timestamp
  result_completedAt :: "timestamp option"
  result_timeSpent :: number

record quiz_stats =
  totalAttempts :: nat
  passedAttempts :: nat
  passRate :: number
  averageScore :: number

record question_stat =
  stat_questionIndex :: nat
  stat_questionText :: string
  stat_totalAttempts :: nat
  stat_correctAnswers :: nat
  stat_correctPercentage :: number

record results_data =
  quizInfo_title :: string
  quizInfo_totalQuestions :: nat
  quizInfo_passingScore :: number
  stats :: quiz_stats
  questionStats :: "question_stat list"
  results_attempts :: "attempt_result list"

definition attempt_result_of :: "attempt \<Rightarrow> attempt_result" where
  "attempt_result_of a =
     \<lparr>result_student = student a, result_score = score a, result_maxScore = maxScore a,
      result_percentage = percentage (score a) (maxScore a), result_passed = passed a,
      result_answers = answers a, result_startedAt = startedAt a,
      result_completedAt = completedAt a, result_timeSpent = timeSpent a\<rparr>"

text \<open>
  \<^verbatim>\<open>Array.prototype.sort\<close> with a comparator: a stable sort, in which \<open>x\<close> is moved
  behind \<open>y\<close> only where the comparator is positive on \<open>(x, y)\<close>; a comparator value of
  NaN counts as 0. (Where the comparator is no consistent order, as with a score that is
  NaN, the language leaves the order to the engine; the model then gives the order of
  this insertion sort.)
\<close>

fun positive :: "number \<Rightarrow> bool" where
  "positive (Fin v) = (0 < v)"
| "positive PosInf = True"
| "positive _ = False"

fun sort_insert :: "('a \<Rightarrow> 'a \<Rightarrow> number) \<Rightarrow> 'a \<Rightarrow> 'a list \<Rightarrow> 'a list" where
  "sort_insert cmp x [] = [x]"
| "sort_insert cmp x (y # ys) =
     (if positive (cmp x y) then y # sort_insert cmp x ys else x # y # ys)"

definition array_sort :: "('a \<Rightarrow> 'a \<Rightarrow> number) \<Rightarrow> 'a list \<Rightarrow> 'a list" where
  "array_sort cmp xs = foldr (sort_insert cmp) xs []"

text \<open>
  The attempts that have \<^verbatim>\<open>completedAt\<close>, mapped and sorted by
  \<^verbatim>\<open>(a, b) => b.score - a.score\<close> (highest score first).
\<close>

definition completedAttempts :: "quiz \<Rightarrow> attempt_result list" where
  "completedAttempts q =
     array_sort (\<lambda>a b. num_sub (result_score b) (result_score a))
       (map attempt_result_of (filter (\<lambda>a. completedAt a \<noteq> None) (attempts q)))"

definition quiz_stats_of :: "attempt_result list \<Rightarrow> quiz_stats" where
  "quiz_stats_of completed =
     (let total = length completed;
          passedCount = length (filter result_passed completed)
      in \<lparr>totalAttempts = total,
          passedAttempts = passedCount,
          passRate =
            (if total \<noteq> 0
             then Math_round (num_mul (num_div (num_of_nat passedCount) (num_of_nat total)) (Fin 100))
             else Fin 0),
          averageScore =
            (if total \<noteq> 0
             then Math_round
                    (num_div (foldl (\<lambda>sum a. num_add sum (result_percentage a)) (Fin 0) completed)
                             (num_of_nat total))
             else Fin 0)\<rparr>)"

definition question_stat_of :: "attempt_result list \<Rightarrow> nat \<times> question \<Rightarrow> question_stat" where
  "question_stat_of completed iq =
     (case iq of (index, q) \<Rightarrow>
        let answered = filter (\<lambda>a. list_ex (\<lambda>ans. questionIndex ans = index) (result_answers a))
                         completed;
            correctCount =
              length (filter (\<lambda>a. case find (\<lambda>ans. questionIndex ans = index) (result_answers a) of
                                     None \<Rightarrow> False
                                   | Some ans \<Rightarrow> isCorrect ans) answered)
        in \<lparr>stat_questionIndex = index,
            stat_questionText = questionText q,
            stat_totalAttempts = length answered,
            stat_correctAnswers = correctCount,
            stat_correctPercentage =
              (if length answered \<noteq> 0
               then Math_round (num_mul (num_div (num_of_nat correctCount)
                                                 (num_of_nat (length answered))) (Fin 100))
               else Fin 0)\<rparr>)"

definition getQuizResults :: "user \<Rightarrow> object_id \<Rightarrow> db \<Rightarrow> failure + results_data" where
  "getQuizResults u qid d =
     (case quiz_docs d qid of
        None \<Rightarrow> Inl (NotFound ''Quiz not found'')
      | Some q \<Rightarrow>
         (case course_docs d (quiz_course q) of
            None \<Rightarrow> Inl (ServerError ''Error retrieving quiz results'')
          | Some c \<Rightarrow>
             if instructor c \<noteq> user_id u \<and> role u \<noteq> Admin
             then Inl (Forbidden ''Not authorized to view results for this quiz'')
             else
               let completed = completedAttempts q
               in Inr \<lparr>quizInfo_title = title q,
                       quizInfo_totalQuestions = length (questions q),
                       quizInfo_passingScore = passingScore q,
                       stats = quiz_stats_of completed,
                       questionStats = map (question_stat_of completed) (enumerate 0 (questions q)),
                       results_attempts = completed\<rparr>))"

section \<open>updateCourseProgress (course.controller.js)\<close>

text \<open>
  The fields read from the request body. \<^verbatim>\<open>lessonId\<close> and \<^verbatim>\<open>moduleIndex\<close> may be
  absent; \<^verbatim>\<open>completed\<close> is used for its truth value.
\<close>

record progress_request =
  lessonId :: "string option"
  moduleIndex :: "rat option"
  completed :: bool

text \<open>
  \<^verbatim>\<open>if (completed && !list.includes(x)) list.push(x)
  else if (!completed) list = list.filter((id) => id !== x)\<close>
\<close>

definition toggle :: "bool \<Rightarrow> 'a \<Rightarrow> 'a list \<Rightarrow> 'a list" where
  "toggle flag x xs =
     (if flag \<and> x \<notin> set xs then xs @ [x]
      else if \<not> flag then filter (\<lambda>i. i \<noteq> x) xs
      else xs)"

text \<open>\<^verbatim>\<open>if (lessonId)\<close>: the update is skipped for an absent or empty identifier.\<close>

definition update_lessons :: "progress_request \<Rightarrow> string list \<Rightarrow> string list" where
  "update_lessons r lessons =
     (case lessonId r of
        None \<Rightarrow> lessons
      | Some l \<Rightarrow> if l \<noteq> [] then toggle (completed r) l lessons else lessons)"

text \<open>\<^verbatim>\<open>if (moduleIndex !== undefined)\<close>\<close>

definition update_modules :: "progress_request \<Rightarrow> rat list \<Rightarrow> rat list" where
  "update_modules r ms =
     (case moduleIndex r of
        None \<Rightarrow> ms
      | Some m \<Rightarrow> toggle (completed r) m ms)"

definition updateCourseProgress ::
  "user \<Rightarrow> object_id \<Rightarrow> progress_request \<Rightarrow> timestamp \<Rightarrow> db \<Rightarrow> (failure + progress_record) \<times> db" where
  "updateCourseProgress u courseId r now d =
     (case course_docs d courseId of
        None \<Rightarrow> (Inl (NotFound ''Course not found''), d)
      | Some c \<Rightarrow>
         (case findIndex (approved_entry u) (students c) of
            None \<Rightarrow> (Inl (Forbidden ''You are not enrolled in this course''), d)
          | Some studentIndex \<Rightarrow>
              let s = students c ! studentIndex;
                  p = progress s;
                  p' = p\<lparr>completedLessons := update_lessons r (completedLessons p),
                         completedModules := update_modules r (completedModules p),
                         lastAccessedAt := now\<rparr>;
                  c' = snd (calculateStudentProgress (user_id u)
                              (c\<lparr>students := (students c)[studentIndex := s\<lparr>progress := p'\<rparr>]\<rparr>))
              in (Inr (progress (students c' ! studentIndex)),
                  d\<lparr>course_docs := (course_docs d)(courseId \<mapsto> c')\<rparr>)))"

section \<open>Sequences of requests\<close>

text \<open>The handlers that write to an existing quiz or to a student's progress.\<close>

datatype request =
    UpdateQuiz user object_id "quiz \<Rightarrow> quiz option"
  | DeleteQuiz user object_id
  | StartQuizAttempt user object_id timestamp
  | SubmitQuizAttempt user object_id "mixed list" timestamp timestamp timestamp
  | UpdateCourseProgress user object_id progress_request timestamp

fun handle :: "request \<Rightarrow> db \<Rightarrow> db" where
  "handle (UpdateQuiz u qid body) d = snd (updateQuiz u qid body d)"
| "handle (DeleteQuiz u qid) d = snd (deleteQuiz u qid d)"
| "handle (StartQuizAttempt u qid now) d = snd (startQuizAttempt u qid now d)"
| "handle (SubmitQuizAttempt u qid as t1 t2 t3) d = snd (submitQuizAttempt u qid as t1 t2 t3 d)"
| "handle (UpdateCourseProgress u cid r now) d = snd (updateCourseProgress u cid r now d)"

definition run :: "request list \<Rightarrow> db \<Rightarrow> db" where
  "run rs d = fold handle rs d"

text \<open>A student's progress requests on one course, each with the time it arrives.\<close>

definition run_progress :: "user \<Rightarrow> object_id \<Rightarrow> (progress_request \<times> timestamp) list \<Rightarrow> db \<Rightarrow> db" where
  "run_progress u cid rs d = fold (\<lambda>(r, now). handle (UpdateCourseProgress u cid r now)) rs d"

section \<open>Example documents\<close>

definition student1 :: user where
  "student1 = \<lparr>user_id = ''s1'', role = Student\<rparr>"

definition teacher1 :: user where
  "teacher1 = \<lparr>user_id = ''t1'', role = Teacher\<rparr>"

definition open_attempt :: attempt where
  "open_attempt = \<lparr>student = ''s1'', score = Fin 0, maxScore = Fin 1, passed = False, answers = [],
     startedAt = 0, completedAt = None, timeSpent = Fin 0\<rparr>"

definition done_attempt :: attempt where
  "done_attempt = \<lparr>student = ''s1'', score = Fin 0, maxScore = Fin 1, passed = False,
     answers = [\<lparr>questionIndex = 0, givenAnswer = MNumber 0, isCorrect = False,
                 pointsEarned = Fin 0\<rparr>],
     startedAt = 0, completedAt = Some 500, timeSpent = Fin (1 / 2)\<rparr>"

text \<open>One question worth one point, 50 percent to pass, one attempt of \<open>s1\<close> in progress.\<close>

definition quiz1 :: quiz where
  "quiz1 = \<lparr>title = ''Quiz'', quiz_course = ''c1'', passingScore = Fin 50, isActive = True,
     questions = [\<lparr>questionText = ''Q1'', correctAnswer = MNumber 1, points = Fin 1\<rparr>],
     attempts = [open_attempt]\<rparr>"

text \<open>The same quiz when the only attempt has been submitted.\<close>

definition quiz4 :: quiz where
  "quiz4 = quiz1\<lparr>attempts := [done_attempt]\<rparr>"

text \<open>Two questions worth 29 and 21 points, 58 percent to pass.\<close>

definition quiz3 :: quiz where
  "quiz3 = \<lparr>title = ''Quiz'', quiz_course = ''c1'', passingScore = Fin 58, isActive = True,
     questions = [\<lparr>questionText = ''Q1'', correctAnswer = MNumber 1, points = Fin 29\<rparr>,
                  \<lparr>questionText = ''Q2'', correctAnswer = MNumber 0, points = Fin 21\<rparr>],
     attempts = [open_attempt\<lparr>maxScore := Fin 50\<rparr>]\<rparr>"

text \<open>Two questions worth \<open>2^53\<close> points and 1 point, and no attempt yet.\<close>

definition quiz6 :: quiz where
  "quiz6 = \<lparr>title = ''Quiz'', quiz_course = ''c1'', passingScore = Fin 50, isActive = True,
     questions = [\<lparr>questionText = ''Q1'', correctAnswer = MNumber 1, points = Fin 9007199254740992\<rparr>,
                  \<lparr>questionText = ''Q2'', correctAnswer = MNumber 0, points = Fin 1\<rparr>],
     attempts = []\<rparr>"

definition progress0 :: progress_record where
  "progress0 = \<lparr>completedModules = [], completedLessons = [], quizScores = [],
     completionPercentage = Fin 0, lastAccessedAt = 0\<rparr>"

definition course1 :: course where
  "course1 = \<lparr>instructor = ''t1'',
     students = [\<lparr>enrolled_student = ''s1'', enrollmentStatus = Approved, progress = progress0\<rparr>],
     modules = [], quizzes = [\<lparr>course_quiz_id = ''q1'', course_quiz_passingScore = Fin 50\<rparr>]\<rparr>"

definition db1 :: db where
  "db1 = \<lparr>quiz_docs = [''q1'' \<mapsto> quiz1], course_docs = [''c1'' \<mapsto> course1]\<rparr>"

definition db3 :: db where
  "db3 = \<lparr>quiz_docs = [''q3'' \<mapsto> quiz3], course_docs = [''c1'' \<mapsto> course1]\<rparr>"

definition db4 :: db where
  "db4 = \<lparr>quiz_docs = [''q1'' \<mapsto> quiz4], course_docs = [''c1'' \<mapsto> course1]\<rparr>"

text \<open>
  A course whose only quiz asks for 70 percent; \<open>s1\<close> has the score 2 out of 2 recorded
  for it.
\<close>

definition course2 :: course where
  "course2 = \<lparr>instructor = ''t1'',
     students = [\<lparr>enrolled_student = ''s1'', enrollmentStatus = Approved,
                  progress = progress0\<lparr>quizScores :=
                    [\<lparr>quizId = ''q2'', quizScore_score = Fin 2, quizScore_maxScore = Fin 2,
                      quizScore_completedAt = 1000\<rparr>]\<rparr>\<rparr>],
     modules = [],
     quizzes = [\<lparr>course_quiz_id = ''q2'', course_quiz_passingScore = Fin 70\<rparr>]\<rparr>"

text \<open>A course of 40 required materials and no quiz; \<open>s1\<close> has completed the first 23.\<close>

definition lesson_ids :: "string list" where
  "lesson_ids = [''01'', ''02'', ''03'', ''04'', ''05'', ''06'', ''07'', ''08'', ''09'', ''10'',
                 ''11'', ''12'', ''13'', ''14'', ''15'', ''16'', ''17'', ''18'', ''19'', ''20'',
                 ''21'', ''22'', ''23'', ''24'', ''25'', ''26'', ''27'', ''28'', ''29'', ''30'',
                 ''31'', ''32'', ''33'', ''34'', ''35'', ''36'', ''37'', ''38'', ''39'', ''40'']"

definition course5 :: course where
  "course5 = \<lparr>instructor = ''t1'',
     students = [\<lparr>enrolled_student = ''s1'', enrollmentStatus = Approved,
                  progress = progress0\<lparr>completedLessons := take 23 lesson_ids\<rparr>\<rparr>],
     modules = [\<lparr>module_order = 1,
                 materials = map (\<lambda>i. \<lparr>material_id = i, isRequired = True\<rparr>) lesson_ids\<rparr>],
     quizzes = []\<rparr>"

text \<open>The same course when \<open>s1\<close> has marked three modules as done.\<close>

definition course1_modules_done :: course where
  "course1_modules_done = course1\<lparr>students :=
     [\<lparr>enrolled_student = ''s1'', enrollmentStatus = Approved,
       progress = progress0\<lparr>completedModules := [1, 2, 3]\<rparr>\<rparr>]\<rparr>"

section \<open>What stays fixed once a quiz has an attempt\<close>

definition frozen_as :: "quiz \<Rightarrow> object_id \<Rightarrow> db \<Rightarrow> bool" where
  "frozen_as q qid d \<longleftrightarrow>
     (\<exists>q'. quiz_docs d qid = Some q' \<and> questions q' = questions q
           \<and> passingScore q' = passingScore q \<and> attempts q' \<noteq> [])"

section \<open>Facts about the arithmetic\<close>

lemma fl_1001: "fl (1001 / 1000) = Fin (2254051613498933 / 2251799813685248)"
  by code_simp

lemma passes_1_1_50: "passes (Fin 1) (Fin 1) (Fin 50)"
  by code_simp

lemma passes_2_2_70: "passes (Fin 2) (Fin 2) (Fin 70)"
  by code_simp

lemma passes_29_50_58: "\<not> passes (Fin 29) (Fin 50) (Fin 58)"
  by code_simp

lemma percentage_29_50: "percentage (Fin 29) (Fin 50) = Fin 58"
  by code_simp

lemma percentage_of_40_23: "percentage_of (40, 23) = Fin 57"
  by code_simp

lemma percentage_of_1_0: "percentage_of (Suc 0, 0) = Fin 0"
  by code_simp

lemma half_up_23_40: "\<lfloor>(100 * 23 / 40 :: rat) + 1 / 2\<rfloor> = 58"
  by code_simp

text \<open>
  The two products behind these values: \<^verbatim>\<open>(29 / 50) * 100\<close> is the double
  57.99999999999999289..., and \<^verbatim>\<open>(23 / 40) * 100\<close> is 57.49999999999999289...
\<close>

lemma double_29_50_times_100:
  "num_mul (num_div (Fin 29) (Fin 50)) (Fin 100) = Fin (8162774324609023 / 140737488355328)"
  by code_simp

lemma double_23_40_times_100:
  "num_mul (num_div (Fin 23) (Fin 40)) (Fin 100) = Fin (8092405580431359 / 140737488355328)"
  by code_simp

lemma doubles_below_exact:
  "(8162774324609023 / 140737488355328 :: rat) < 58"
  "(8092405580431359 / 140737488355328 :: rat) < 115 / 2"
  by simp_all

text \<open>The grading of the example quizzes.\<close>

lemma totalPoints_quiz1: "totalPoints (questions quiz1) = Fin 1"
  by code_simp

lemma totalPoints_quiz3: "totalPoints (questions quiz3) = Fin 50"
  by code_simp

lemma gradeAnswers_quiz1:
  "gradeAnswers (questions quiz1) 0 [MNumber 1] (Fin 0) [] =
     Inr (Fin 1, [\<lparr>questionIndex = 0, givenAnswer = MNumber 1, isCorrect = True,
                    pointsEarned = Fin 1\<rparr>])"
  by code_simp

lemma gradeAnswers_quiz3:
  "gradeAnswers (questions quiz3) 0 [MNumber 1, MNumber 1] (Fin 0) [] =
     Inr (Fin 29, [\<lparr>questionIndex = 0, givenAnswer = MNumber 1, isCorrect = True,
                     pointsEarned = Fin 29\<rparr>,
                   \<lparr>questionIndex = 1, givenAnswer = MNumber 1, isCorrect = False,
                     pointsEarned = Fin 0\<rparr>])"
  by code_simp

text \<open>
  A sum of points is rounded like any other: \<^verbatim>\<open>9007199254740992 + 1\<close> is
  \<^verbatim>\<open>9007199254740992\<close>.
\<close>

lemma totalPoints_quiz6: "totalPoints (questions quiz6) = Fin 9007199254740992"
  by code_simp

section \<open>Facts about findIndex\<close>

lemma findIndex_None_iff: "findIndex p xs = None \<longleftrightarrow> (\<forall>x\<in>set xs. \<not> p x)"
  by (induction xs) auto

lemma findIndex_SomeD:
  "findIndex p xs = Some i \<Longrightarrow> i < length xs \<and> p (xs ! i)"
proof (induction xs arbitrary: i)
  case Nil
  then show ?case by simp
next
  case (Cons x xs)
  then show ?case by (auto split: if_splits)
qed

lemma findIndex_cong_map:
  "map p xs = map p' ys \<Longrightarrow> findIndex p xs = findIndex p' ys"
proof (induction xs arbitrary: ys)
  case Nil
  then show ?case by simp
next
  case (Cons x xs)
  then obtain y ys' where ys: "ys = y # ys'" by (cases ys) auto
  with Cons show ?case by auto
qed

section \<open>Bounds on the rounded values\<close>

text \<open>The equation of \<open>binade\<close> is applied by hand below.\<close>

declare binade.simps [simp del]

lemma binade_ge2: "2 \<le> x \<Longrightarrow> binade x = binade (x / 2) + 1"
  by (subst binade.simps) simp

lemma binade_lt1: "0 < x \<Longrightarrow> x < 1 \<Longrightarrow> binade x = binade (x * 2) - 1"
  by (subst binade.simps) simp

lemma binade_unit: "1 \<le> x \<Longrightarrow> x < 2 \<Longrightarrow> binade x = 0"
  by (subst binade.simps) simp

lemma binade_nonpos: "x \<le> 0 \<Longrightarrow> binade x = 0"
  by (subst binade.simps) simp

lemma binade_bounds:
  "0 < x \<Longrightarrow> 2 powi (binade x) \<le> x \<and> x < 2 powi (binade x + 1)"
proof (induction x rule: binade.induct)
  case (1 x)
  show ?case
  proof (cases "2 \<le> x")
    case True
    have "0 < x / 2" using "1.prems" by simp
    with "1.IH"(1) True "1.prems"
    have ih: "2 powi (binade (x / 2)) \<le> x / 2" "x / 2 < 2 powi (binade (x / 2) + 1)"
      by auto
    have e1: "(2::rat) powi (binade (x / 2) + 1) = 2 powi (binade (x / 2)) * 2"
      by (simp add: power_int_add)
    have e2: "(2::rat) powi (binade (x / 2) + 1 + 1) = 2 powi (binade (x / 2) + 1) * 2"
      by (simp add: power_int_add)
    show ?thesis
      unfolding binade_ge2 [OF True] e2 using ih unfolding e1 by linarith
  next
    case False
    note nf = this
    show ?thesis
    proof (cases "x < 1")
      case True
      have "0 < x * 2" using "1.prems" by simp
      with "1.IH"(2) True nf "1.prems"
      have ih: "2 powi (binade (x * 2)) \<le> x * 2" "x * 2 < 2 powi (binade (x * 2) + 1)"
        by auto
      have e1: "(2::rat) powi (binade (x * 2) - 1 + 1) = 2 powi (binade (x * 2))"
        by simp
      have e2: "(2::rat) powi (binade (x * 2)) = 2 powi (binade (x * 2) - 1) * 2"
        using power_int_add [of "2::rat" "binade (x * 2) - 1" 1] by simp
      have e3: "(2::rat) powi (binade (x * 2) + 1) = 2 powi (binade (x * 2)) * 2"
        by (simp add: power_int_add)
      show ?thesis
        unfolding binade_lt1 [OF "1.prems" True] e1 using ih unfolding e3 e2 by linarith
    next
      case False
      then have "binade x = 0" using nf by (intro binade_unit) simp_all
      then show ?thesis using False nf by simp
    qed
  qed
qed

lemma binade_less:
  assumes "0 < x" and "x < 2 powi n"
  shows "binade x < n"
proof (rule ccontr)
  assume "\<not> binade x < n"
  then have "n \<le> binade x" by simp
  then have "(2::rat) powi n \<le> 2 powi (binade x)" by (intro power_int_increasing) simp_all
  also have "\<dots> \<le> x" using binade_bounds [OF assms(1)] by simp
  finally show False using assms(2) by simp
qed

lemma rne_le: "x \<le> of_int n \<Longrightarrow> rne x \<le> n"
proof -
  assume a: "x \<le> of_int n"
  show ?thesis
  proof (cases "x = of_int n")
    case True
    then show ?thesis by (simp add: rne_def)
  next
    case False
    with a have "x < of_int n" by simp
    then have "\<lfloor>x\<rfloor> < n" by (simp add: floor_less_iff)
    then show ?thesis by (simp add: rne_def Let_def)
  qed
qed

lemma rne_ge: "of_int n \<le> x \<Longrightarrow> n \<le> rne x"
proof -
  assume "of_int n \<le> x"
  then have "n \<le> \<lfloor>x\<rfloor>" by (simp add: le_floor_iff)
  then show ?thesis by (simp add: rne_def Let_def)
qed

text \<open>Rounding does not cross an integer below \<open>2^53\<close>.\<close>

lemma fl_le_int:
  assumes "0 < x" and "x \<le> of_int m" and "m < 2 ^ 53"
  shows "\<exists>r. fl x = Fin r \<and> 0 \<le> r \<and> r \<le> of_int m"
proof -
  define e where "e = max (binade \<bar>x\<bar>) (- 1022)"
  define k where "k = nat (52 - e)"
  define ulp :: rat where "ulp = 2 powi (e - 52)"
  define r where "r = of_int (rne (x / ulp)) * ulp"
  have m53: "(of_int m :: rat) < 2 powi 53"
  proof -
    have "(of_int m :: rat) < of_int (2 ^ 53)" using assms(3) by (simp only: of_int_less_iff)
    then show ?thesis by simp
  qed
  have "x < 2 powi 53" using assms(2) m53 by simp
  then have "binade x < 53" using assms(1) by (rule binade_less [rotated]) 
  then have e52: "e \<le> 52" using assms(1) by (simp add: e_def)
  have ulp: "ulp = 1 / 2 ^ k"
    using e52 by (simp add: ulp_def k_def power_int_def field_simps)
  have ulp_pos: "0 < ulp" by (simp add: ulp)
  have "x / ulp \<le> of_int (m * 2 ^ k)" using assms(2) by (simp add: ulp mult_right_mono)
  then have up: "rne (x / ulp) \<le> m * 2 ^ k" by (rule rne_le)
  have "of_int 0 \<le> x / ulp" using assms(1) ulp_pos by simp
  then have lo: "0 \<le> rne (x / ulp)" by (rule rne_ge)
  have r0: "0 \<le> r" using lo ulp_pos by (simp add: r_def)
  have "r \<le> of_int (m * 2 ^ k) * ulp"
  proof -
    have "(of_int (rne (x / ulp)) :: rat) \<le> of_int (m * 2 ^ k)"
      using up by (simp only: of_int_le_iff)
    then show ?thesis
      unfolding r_def using ulp_pos by (intro mult_right_mono) simp_all
  qed
  then have rm: "r \<le> of_int m" by (simp add: ulp)
  have "binade \<bar>r\<bar> < 1024"
  proof (cases "r = 0")
    case True
    then show ?thesis by (simp add: binade_nonpos)
  next
    case False
    with r0 have rp: "0 < r" by simp
    have "r < 2 powi 53" using rm m53 by simp
    then have "binade r < 53" using rp by (rule binade_less [rotated])
    then show ?thesis using rp by simp
  qed
  moreover have "fl x = (if 1024 \<le> binade \<bar>r\<bar> then (if 0 < x then PosInf else NegInf) else Fin r)"
    using assms(1) by (simp add: fl_def Let_def r_def ulp_def e_def)
  ultimately have "fl x = Fin r"
    by simp
  then show ?thesis using r0 rm by blast
qed




section \<open>Submitting an attempt\<close>

lemma submit_rejected_without_open_attempt:
  assumes "quiz_docs d qid = Some q" and "\<forall>a\<in>set (attempts q). \<not> open_attempt_of u a"
  shows "submitQuizAttempt u qid as t1 t2 t3 d = (Inl (NotFound ''No active attempt found''), d)"
proof -
  have "findIndex (open_attempt_of u) (attempts q) = None"
    using assms(2) by (simp add: findIndex_None_iff)
  with assms(1) show ?thesis by (simp add: submitQuizAttempt_def)
qed

text \<open>
  A submission writes one attempt, the first open one of the submitting student; every
  attempt that has \<^verbatim>\<open>completedAt\<close> stays as it is, and so do the questions and the
  passing score.
\<close>

lemma submit_keeps_completed_attempts:
  assumes "quiz_docs d qid = Some q" and "i < length (attempts q)"
    and "completedAt (attempts q ! i) \<noteq> None"
  shows "\<exists>q'. quiz_docs (snd (submitQuizAttempt u qid' as t1 t2 t3 d)) qid = Some q'
              \<and> length (attempts q') = length (attempts q)
              \<and> attempts q' ! i = attempts q ! i"
proof (cases "quiz_docs d qid'")
  case None
  then show ?thesis using assms by (simp add: submitQuizAttempt_def)
next
  case (Some p)
  note p = this
  show ?thesis
  proof (cases "findIndex (open_attempt_of u) (attempts p)")
    case None
    then show ?thesis using assms p by (simp add: submitQuizAttempt_def)
  next
    case (Some k)
    note k = this
    from findIndex_SomeD [OF k] have kp: "open_attempt_of u (attempts p ! k)"
      by simp
    show ?thesis
    proof (cases "gradeAnswers (questions p) 0 as (Fin 0) []")
      case (Inl e)
      then show ?thesis using assms p k
        by (simp add: submitQuizAttempt_def)
    next
      case (Inr r)
      obtain ts ga where r: "r = (ts, ga)" by (cases r)
      show ?thesis
      proof (cases "qid' = qid")
        case True
        with assms p have pq: "p = q" by simp
        from kp assms(3) pq have "k \<noteq> i" by (auto simp: open_attempt_of_def)
        then show ?thesis using assms p k Inr r pq True
          by (simp add: submitQuizAttempt_def Let_def course_in_scope_def)
      next
        case False
        then show ?thesis using assms p k Inr r
          by (simp add: submitQuizAttempt_def Let_def course_in_scope_def)
      qed
    qed
  qed
qed

text \<open>
  C4. A submission by a student who has no attempt with \<^verbatim>\<open>completedAt\<close> unset is answered
  with status 404, "No active attempt found", and neither the quiz nor any course is
  written. No submission, by anybody and to any quiz, changes an attempt that already
  has \<^verbatim>\<open>completedAt\<close>.
\<close>

theorem submit_needs_open_attempt:
  assumes "quiz_docs d qid = Some q"
  shows "((\<forall>a\<in>set (attempts q). \<not> (student a = user_id u \<and> completedAt a = None)) \<longrightarrow>
            submitQuizAttempt u qid as t1 t2 t3 d = (Inl (NotFound ''No active attempt found''), d))
       \<and> (\<forall>i < length (attempts q). completedAt (attempts q ! i) \<noteq> None \<longrightarrow>
            (\<exists>q'. quiz_docs (snd (submitQuizAttempt u' qid' as' t1' t2' t3' d)) qid = Some q'
                  \<and> length (attempts q') = length (attempts q)
                  \<and> attempts q' ! i = attempts q ! i))"
proof (intro conjI impI allI)
  assume "\<forall>a\<in>set (attempts q). \<not> (student a = user_id u \<and> completedAt a = None)"
  then have "\<forall>a\<in>set (attempts q). \<not> open_attempt_of u a"
    by (simp add: open_attempt_of_def)
  with assms
  show "submitQuizAttempt u qid as t1 t2 t3 d = (Inl (NotFound ''No active attempt found''), d)"
    by (rule submit_rejected_without_open_attempt)
next
  fix i
  assume "i < length (attempts q)" "completedAt (attempts q ! i) \<noteq> None"
  with assms submit_keeps_completed_attempts [of d qid q i u' qid' as' t1' t2' t3']
  show "\<exists>q'. quiz_docs (snd (submitQuizAttempt u' qid' as' t1' t2' t3' d)) qid = Some q'
              \<and> length (attempts q') = length (attempts q)
              \<and> attempts q' ! i = attempts q ! i"
    by blast
qed

theorem submit_needs_open_attempt_witness:
  "quiz_docs db4 ''q1'' = Some quiz4
   \<and> submitQuizAttempt student1 ''q1'' [MNumber 1] 1000 1001 1002 db4
       = (Inl (NotFound ''No active attempt found''), db4)
   \<and> (\<exists>q'. quiz_docs (snd (submitQuizAttempt student1 ''q1'' [MNumber 1] 1000 1001 1002 db4)) ''q1''
            = Some q' \<and> attempts q' ! 0 = done_attempt)"
proof -
  have q: "quiz_docs db4 ''q1'' = Some quiz4"
    by (simp add: db4_def)
  have a: "attempts quiz4 = [done_attempt]"
    by (simp add: quiz4_def quiz1_def)
  have c: "completedAt done_attempt = Some 500"
    by (simp add: done_attempt_def)
  show ?thesis
    using submit_needs_open_attempt
            [OF q, of student1 "[MNumber 1]" 1000 1001 1002 student1 "''q1''" "[MNumber 1]" 1000 1001 1002]
    by (simp add: q a c)
qed

text \<open>
  C1. A student whose answer passes the quiz is answered with status 500: the statements
  that would record the score read \<^verbatim>\<open>course\<close>, which the handler never declares. The
  quiz has been saved by then, with the attempt completed and passed; the course and the
  student's \<^verbatim>\<open>quizScores\<close> are as before.
\<close>

theorem submit_passing_attempt_answers_500:
  "fst (submitQuizAttempt student1 ''q1'' [MNumber 1] 1000 1001 1002 db1)
     = Inl (ServerError ''Error submitting quiz attempt'')
   \<and> course_docs (snd (submitQuizAttempt student1 ''q1'' [MNumber 1] 1000 1001 1002 db1))
     = course_docs db1
   \<and> map_option (map (\<lambda>a. (score a, completedAt a, passed a)) \<circ> attempts)
       (quiz_docs (snd (submitQuizAttempt student1 ''q1'' [MNumber 1] 1000 1001 1002 db1)) ''q1'')
     = Some [(Fin 1, Some 1000, True)]"
proof -
  have q: "quiz_docs db1 ''q1'' = Some quiz1"
    by (simp add: db1_def)
  have a: "attempts quiz1 = [open_attempt]" "passingScore quiz1 = Fin 50"
    by (simp_all add: quiz1_def)
  have o: "open_attempt_of student1 open_attempt" "startedAt open_attempt = 0"
    by (simp_all add: open_attempt_of_def student1_def open_attempt_def)
  show ?thesis
    by (simp add: submitQuizAttempt_def q a o gradeAnswers_quiz1 totalPoints_quiz1
          passes_1_1_50 course_in_scope_def num_of_int_def fl_1001 Let_def
          del: gradeAnswers.simps)
qed

text \<open>
  C3. 29 points out of 50 are exactly 58 percent and the quiz asks for 58, yet the attempt
  is stored as not passed: \<^verbatim>\<open>29 / 50\<close> rounds to a double below 0.58 and its product with
  100 to one below 58. The answer of the same request reports \<^verbatim>\<open>percentage: 58\<close>.
  (That a quiz whose questions are all worth 0 points is never passed is proved further
  down.)
\<close>

theorem submit_boundary_attempt_not_passed:
  "map_sum id (\<lambda>r. (data_score r, data_maxScore r, data_percentage r, data_passed r))
     (fst (submitQuizAttempt student1 ''q3'' [MNumber 1, MNumber 1] 1000 1001 1002 db3))
   = Inr (Fin 29, Fin 50, Fin 58, False)"
proof -
  have q: "quiz_docs db3 ''q3'' = Some quiz3"
    by (simp add: db3_def)
  have a: "attempts quiz3 = [open_attempt\<lparr>maxScore := Fin 50\<rparr>]" "passingScore quiz3 = Fin 58"
    by (simp_all add: quiz3_def)
  have o: "open_attempt_of student1 (open_attempt\<lparr>maxScore := Fin 50\<rparr>)"
    by (simp add: open_attempt_of_def student1_def open_attempt_def)
  show ?thesis
    by (simp add: submitQuizAttempt_def q a o gradeAnswers_quiz3 totalPoints_quiz3
          passes_29_50_58 percentage_29_50 Let_def del: gradeAnswers.simps)
qed

section \<open>Recomputing the completion percentage\<close>

lemma count_items_course5:
  "count_items course5 (progress0\<lparr>completedLessons := take 23 lesson_ids\<rparr>) = (40, 23)"
  by (simp add: course5_def lesson_ids_def progress0_def count_items_def count_material_def)

text \<open>
  C5. With 23 of 40 required materials completed the exact percentage is 57.5, which
  rounds half up to 58; the method returns 57, because \<^verbatim>\<open>(23 / 40) * 100\<close> is a double
  below 57.5. (That the method returns an integer between 0 and 100, and 0 when nothing
  is required, is proved further down.)
\<close>

theorem progress_23_of_40_is_57:
  "fst (calculateStudentProgress ''s1'' course5) = Fin 57
   \<and> \<lfloor>(100 * 23 / 40 :: rat) + 1 / 2\<rfloor> = 58"
  using count_items_course5
  by (simp add: calculateStudentProgress_def course5_def Let_def percentage_of_40_23 half_up_23_40)

text \<open>
  C2. The student has passed the only quiz of the course with 2 points out of 2 (the quiz
  asks for 70 percent) and there is no material, yet the completion percentage is 0: the
  recorded points, not their percentage, are compared with the passing score.
\<close>

theorem progress_passed_quiz_not_counted:
  "passes (Fin 2) (Fin 2) (Fin 70) \<and> fst (calculateStudentProgress ''s1'' course2) = Fin 0"
  by (simp add: passes_2_2_70 calculateStudentProgress_def course2_def progress0_def
        count_items_def count_quiz_def percentage_of_1_0 Let_def)

section \<open>Quiz results\<close>

lemma completedAttempts_none:
  "\<forall>a\<in>set (attempts q). completedAt a = None \<Longrightarrow> completedAttempts q = []"
  by (simp add: completedAttempts_def array_sort_def filter_empty_conv)

lemma quiz_stats_of_Nil:
  "quiz_stats_of [] = \<lparr>totalAttempts = 0, passedAttempts = 0, passRate = Fin 0, averageScore = Fin 0\<rparr>"
  by (simp add: quiz_stats_of_def)

lemma question_stat_of_Nil:
  "question_stat_of [] (i, qu) =
     \<lparr>stat_questionIndex = i, stat_questionText = questionText qu, stat_totalAttempts = 0,
      stat_correctAnswers = 0, stat_correctPercentage = Fin 0\<rparr>"
  by (simp add: question_stat_of_def)

lemma completedAttempts_filter:
  "completedAttempts (q\<lparr>attempts := filter (\<lambda>a. completedAt a \<noteq> None) (attempts q)\<rparr>)
     = completedAttempts q"
  by (simp add: completedAttempts_def)

text \<open>
  C9. For the instructor of the course (or an admin): when no attempt of the quiz has
  \<^verbatim>\<open>completedAt\<close>, the results are \<^verbatim>\<open>totalAttempts\<close> 0, \<^verbatim>\<open>passRate\<close> 0,
  \<^verbatim>\<open>averageScore\<close> 0, and for every question index an entry with \<^verbatim>\<open>totalAttempts\<close> 0
  and \<^verbatim>\<open>correctPercentage\<close> 0; nothing is divided. In general the results are those of
  the quiz without its attempts in progress.
\<close>

theorem results_without_completed_attempts:
  assumes "quiz_docs d qid = Some q" and "course_docs d (quiz_course q) = Some c"
    and "instructor c = user_id u \<or> role u = Admin"
  shows "((\<forall>a\<in>set (attempts q). completedAt a = None) \<longrightarrow>
           getQuizResults u qid d =
             Inr \<lparr>quizInfo_title = title q,
                  quizInfo_totalQuestions = length (questions q),
                  quizInfo_passingScore = passingScore q,
                  stats = \<lparr>totalAttempts = 0, passedAttempts = 0, passRate = Fin 0,
                            averageScore = Fin 0\<rparr>,
                  questionStats =
                    map (\<lambda>(i, qu). \<lparr>stat_questionIndex = i, stat_questionText = questionText qu,
                                     stat_totalAttempts = 0, stat_correctAnswers = 0,
                                     stat_correctPercentage = Fin 0\<rparr>)
                        (enumerate 0 (questions q)),
                  results_attempts = []\<rparr>)
       \<and> getQuizResults u qid
           (d\<lparr>quiz_docs := (quiz_docs d)
                (qid \<mapsto> q\<lparr>attempts := filter (\<lambda>a. completedAt a \<noteq> None) (attempts q)\<rparr>)\<rparr>)
         = getQuizResults u qid d"
proof (intro conjI impI)
  assume n: "\<forall>a\<in>set (attempts q). completedAt a = None"
  have "map (question_stat_of []) (enumerate 0 (questions q)) =
        map (\<lambda>(i, qu). \<lparr>stat_questionIndex = i, stat_questionText = questionText qu,
                                     stat_totalAttempts = 0, stat_correctAnswers = 0,
                                     stat_correctPercentage = Fin 0\<rparr>)
                        (enumerate 0 (questions q))"
    by (rule map_cong) (auto simp: question_stat_of_Nil)
  with assms n show "getQuizResults u qid d =
             Inr \<lparr>quizInfo_title = title q,
                  quizInfo_totalQuestions = length (questions q),
                  quizInfo_passingScore = passingScore q,
                  stats = \<lparr>totalAttempts = 0, passedAttempts = 0, passRate = Fin 0,
                            averageScore = Fin 0\<rparr>,
                  questionStats =
                    map (\<lambda>(i, qu). \<lparr>stat_questionIndex = i, stat_questionText = questionText qu,
                                     stat_totalAttempts = 0, stat_correctAnswers = 0,
                                     stat_correctPercentage = Fin 0\<rparr>)
                        (enumerate 0 (questions q)),
                  results_attempts = []\<rparr>"
    by (auto simp: getQuizResults_def Let_def completedAttempts_none quiz_stats_of_Nil)
next
  show "getQuizResults u qid
           (d\<lparr>quiz_docs := (quiz_docs d)
                (qid \<mapsto> q\<lparr>attempts := filter (\<lambda>a. completedAt a \<noteq> None) (attempts q)\<rparr>)\<rparr>)
         = getQuizResults u qid d"
  proof -
    define q2 where "q2 = q\<lparr>attempts := filter (\<lambda>a. completedAt a \<noteq> None) (attempts q)\<rparr>"
    have e: "completedAttempts q2 = completedAttempts q"
      unfolding q2_def by (rule completedAttempts_filter)
    have f: "title q2 = title q" "questions q2 = questions q" "passingScore q2 = passingScore q"
      "quiz_course q2 = quiz_course q"
      by (simp_all add: q2_def)
    show ?thesis
      unfolding q2_def [symmetric] using assms by (simp add: getQuizResults_def Let_def e f)
  qed
qed

theorem results_without_completed_attempts_witness:
  "getQuizResults teacher1 ''q1'' db1 =
     Inr \<lparr>quizInfo_title = ''Quiz'', quizInfo_totalQuestions = 1, quizInfo_passingScore = Fin 50,
          stats = \<lparr>totalAttempts = 0, passedAttempts = 0, passRate = Fin 0, averageScore = Fin 0\<rparr>,
          questionStats = [\<lparr>stat_questionIndex = 0, stat_questionText = ''Q1'',
                            stat_totalAttempts = 0, stat_correctAnswers = 0,
                            stat_correctPercentage = Fin 0\<rparr>],
          results_attempts = []\<rparr>"
proof -
  have h: "quiz_docs db1 ''q1'' = Some quiz1" "course_docs db1 (quiz_course quiz1) = Some course1"
    "instructor course1 = user_id teacher1 \<or> role teacher1 = Admin"
    "\<forall>a\<in>set (attempts quiz1). completedAt a = None"
    by (simp_all add: db1_def quiz1_def course1_def teacher1_def open_attempt_def)
  from results_without_completed_attempts [OF h(1) h(2) h(3)] h(4)
  have "getQuizResults teacher1 ''q1'' db1 =
             Inr \<lparr>quizInfo_title = title quiz1,
                  quizInfo_totalQuestions = length (questions quiz1),
                  quizInfo_passingScore = passingScore quiz1,
                  stats = \<lparr>totalAttempts = 0, passedAttempts = 0, passRate = Fin 0,
                            averageScore = Fin 0\<rparr>,
                  questionStats =
                    map (\<lambda>(i, qu). \<lparr>stat_questionIndex = i, stat_questionText = questionText qu,
                                     stat_totalAttempts = 0, stat_correctAnswers = 0,
                                     stat_correctPercentage = Fin 0\<rparr>)
                        (enumerate 0 (questions quiz1)),
                  results_attempts = []\<rparr>"
    by blast
  then show ?thesis by (simp add: quiz1_def)
qed

section \<open>Updating and deleting a quiz\<close>

lemma updateQuiz_rejected:
  assumes "quiz_docs d qid = Some q" and "attempts q \<noteq> []"
  shows "\<exists>f. updateQuiz u qid body d = (Inl f, d)"
  using assms by (auto simp: updateQuiz_def split: option.splits)

lemma deleteQuiz_rejected:
  assumes "quiz_docs d qid = Some q" and "attempts q \<noteq> []"
  shows "\<exists>f. deleteQuiz u qid d = (Inl f, d)"
  using assms by (auto simp: deleteQuiz_def split: option.splits)

lemma frozen_updateQuiz:
  "frozen_as q qid d \<Longrightarrow> frozen_as q qid (snd (updateQuiz u qid' body d))"
  by (auto simp: frozen_as_def updateQuiz_def split: option.splits)

lemma frozen_deleteQuiz:
  "frozen_as q qid d \<Longrightarrow> frozen_as q qid (snd (deleteQuiz u qid' d))"
  by (auto simp: frozen_as_def deleteQuiz_def split: option.splits)

lemma frozen_startQuizAttempt:
  "frozen_as q qid d \<Longrightarrow> frozen_as q qid (snd (startQuizAttempt u qid' now d))"
  by (auto simp: frozen_as_def startQuizAttempt_def Let_def split: option.splits)

lemma frozen_submitQuizAttempt:
  "frozen_as q qid d \<Longrightarrow> frozen_as q qid (snd (submitQuizAttempt u qid' as t1 t2 t3 d))"
  by (auto simp: frozen_as_def submitQuizAttempt_def Let_def course_in_scope_def
           split: option.splits sum.splits dest: findIndex_SomeD)

lemma frozen_updateCourseProgress:
  "frozen_as q qid d \<Longrightarrow> frozen_as q qid (snd (updateCourseProgress u cid r now d))"
  by (auto simp: frozen_as_def updateCourseProgress_def Let_def split: option.splits)

lemma frozen_handle: "frozen_as q qid d \<Longrightarrow> frozen_as q qid (handle r d)"
  by (cases r)
     (simp_all add: frozen_updateQuiz frozen_deleteQuiz frozen_startQuizAttempt
        frozen_submitQuizAttempt frozen_updateCourseProgress)

lemma frozen_run: "frozen_as q qid d \<Longrightarrow> frozen_as q qid (run rs d)"
  unfolding run_def by (induction rs arbitrary: d) (simp_all add: frozen_handle)

text \<open>
  C10. Once a quiz has an attempt, \<^verbatim>\<open>updateQuiz\<close> and \<^verbatim>\<open>deleteQuiz\<close> answer with a
  failure and write nothing; and after any sequence of update, delete, start, submit and
  progress requests the quiz is still stored with the same questions (texts, correct
  answers, points) and the same passing score.
\<close>

theorem attempted_quiz_is_frozen:
  assumes "quiz_docs d qid = Some q" and "attempts q \<noteq> []"
  shows "(\<exists>f. updateQuiz u qid body d = (Inl f, d))
       \<and> (\<exists>f. deleteQuiz u qid d = (Inl f, d))
       \<and> (\<exists>q'. quiz_docs (run rs d) qid = Some q' \<and> questions q' = questions q
                \<and> passingScore q' = passingScore q \<and> attempts q' \<noteq> [])"
proof -
  have "frozen_as q qid d" using assms by (simp add: frozen_as_def)
  then have "frozen_as q qid (run rs d)" by (rule frozen_run)
  then show ?thesis
    using updateQuiz_rejected [OF assms] deleteQuiz_rejected [OF assms]
    by (simp add: frozen_as_def)
qed

theorem attempted_quiz_is_frozen_witness:
  "attempts quiz4 \<noteq> []
   \<and> (\<exists>f. updateQuiz teacher1 ''q1'' (\<lambda>q. Some (q\<lparr>passingScore := Fin 0\<rparr>)) db4 = (Inl f, db4))
   \<and> (\<exists>f. deleteQuiz teacher1 ''q1'' db4 = (Inl f, db4))
   \<and> (\<exists>q'. quiz_docs (run [DeleteQuiz teacher1 ''q1'',
                             UpdateQuiz teacher1 ''q1'' (\<lambda>q. Some (q\<lparr>passingScore := Fin 0\<rparr>))] db4) ''q1''
              = Some q'
            \<and> questions q' = [\<lparr>questionText = ''Q1'', correctAnswer = MNumber 1, points = Fin 1\<rparr>]
            \<and> passingScore q' = Fin 50)"
proof -
  have q: "quiz_docs db4 ''q1'' = Some quiz4"
    by (simp add: db4_def)
  have a: "attempts quiz4 \<noteq> []"
    by (simp add: quiz4_def)
  have f: "questions quiz4 = [\<lparr>questionText = ''Q1'', correctAnswer = MNumber 1, points = Fin 1\<rparr>]"
    "passingScore quiz4 = Fin 50"
    by (simp_all add: quiz4_def quiz1_def)
  show ?thesis
    using attempted_quiz_is_frozen [OF q a, of teacher1 "\<lambda>q. Some (q\<lparr>passingScore := Fin 0\<rparr>)"
            "[DeleteQuiz teacher1 ''q1'', UpdateQuiz teacher1 ''q1'' (\<lambda>q. Some (q\<lparr>passingScore := Fin 0\<rparr>))]"]
      a
    by (auto simp add: f)
qed

section \<open>The percentage does not read completedModules\<close>

lemma map_eq_nth:
  assumes "map f xs = map f ys" and "i < length xs"
  shows "f (xs ! i) = f (ys ! i)"
proof -
  have l: "length xs = length ys" using assms(1) by (rule map_eq_imp_length_eq)
  have "map f xs ! i = map f ys ! i" using assms(1) by simp
  then show ?thesis using assms(2) l by simp
qed

lemma findIndex_by_key:
  assumes "map f xs = map f ys"
  shows "findIndex (\<lambda>s. f s = v) xs = findIndex (\<lambda>s. f s = v) ys"
proof (rule findIndex_cong_map)
  have "map (\<lambda>s. f s = v) xs = map (\<lambda>k. k = v) (map f xs)" by simp
  also have "\<dots> = map (\<lambda>k. k = v) (map f ys)" using assms by simp
  also have "\<dots> = map (\<lambda>s. f s = v) ys" by simp
  finally show "map (\<lambda>s. f s = v) xs = map (\<lambda>s. f s = v) ys" .
qed

lemma count_items_cong:
  "modules c1 = modules c2 \<Longrightarrow> quizzes c1 = quizzes c2 \<Longrightarrow>
   completedLessons p1 = completedLessons p2 \<Longrightarrow> quizScores p1 = quizScores p2 \<Longrightarrow>
   count_items c1 p1 = count_items c2 p2"
  by (simp add: count_items_def)

text \<open>
  C8. Two courses with the same modules and quizzes whose student entries agree on the
  student, on \<^verbatim>\<open>completedLessons\<close> and on \<^verbatim>\<open>quizScores\<close> give the same percentage,
  whatever their \<^verbatim>\<open>completedModules\<close> are.
\<close>

theorem completion_ignores_completedModules:
  assumes "modules c1 = modules c2" and "quizzes c1 = quizzes c2"
    and "map enrolled_student (students c1) = map enrolled_student (students c2)"
    and "map (\<lambda>s. completedLessons (progress s)) (students c1)
         = map (\<lambda>s. completedLessons (progress s)) (students c2)"
    and "map (\<lambda>s. quizScores (progress s)) (students c1)
         = map (\<lambda>s. quizScores (progress s)) (students c2)"
  shows "fst (calculateStudentProgress sid c1) = fst (calculateStudentProgress sid c2)"
proof -
  have fi: "findIndex (\<lambda>s. enrolled_student s = sid) (students c1)
          = findIndex (\<lambda>s. enrolled_student s = sid) (students c2)"
    using assms(3) by (rule findIndex_by_key)
  show ?thesis
  proof (cases "findIndex (\<lambda>s. enrolled_student s = sid) (students c1)")
    case None
    with fi show ?thesis by (simp add: calculateStudentProgress_def)
  next
    case (Some i)
    then have i: "i < length (students c1)" by (simp add: findIndex_SomeD)
    have cl: "completedLessons (progress (students c1 ! i)) = completedLessons (progress (students c2 ! i))"
      using map_eq_nth [of "\<lambda>s. completedLessons (progress s)" "students c1" "students c2" i]
        assms(4) i by simp
    have qs: "quizScores (progress (students c1 ! i)) = quizScores (progress (students c2 ! i))"
      using map_eq_nth [of "\<lambda>s. quizScores (progress s)" "students c1" "students c2" i]
        assms(5) i by simp
    have "count_items c1 (progress (students c1 ! i)) = count_items c2 (progress (students c2 ! i))"
      by (rule count_items_cong [OF assms(1) assms(2) cl qs])
    with Some fi show ?thesis by (simp add: calculateStudentProgress_def Let_def)
  qed
qed

theorem completion_ignores_completedModules_witness:
  "map (\<lambda>s. completedModules (progress s)) (students course1)
     \<noteq> map (\<lambda>s. completedModules (progress s)) (students course1_modules_done)
   \<and> fst (calculateStudentProgress ''s1'' course1)
     = fst (calculateStudentProgress ''s1'' course1_modules_done)"
proof -
  have "fst (calculateStudentProgress ''s1'' course1)
     = fst (calculateStudentProgress ''s1'' course1_modules_done)"
    by (rule completion_ignores_completedModules)
       (simp_all add: course1_def course1_modules_done_def progress0_def)
  then show ?thesis
    by (simp add: course1_def course1_modules_done_def progress0_def)
qed

section \<open>Recording the completion of a lesson\<close>

lemma calculateStudentProgress_students:
  "\<exists>j x. students (snd (calculateStudentProgress sid c))
         = (if j < length (students c)
            then (students c)[j := (students c ! j)\<lparr>progress :=
                   (progress (students c ! j))\<lparr>completionPercentage := x\<rparr>\<rparr>]
            else students c)"
proof (cases "findIndex (\<lambda>s. enrolled_student s = sid) (students c)")
  case None
  then have "students (snd (calculateStudentProgress sid c)) =
     (if length (students c) < length (students c) then undefined else students c)"
    by (simp add: calculateStudentProgress_def)
  then show ?thesis by (intro exI [of _ "length (students c)"]) simp
next
  case (Some i)
  then have "i < length (students c)" by (simp add: findIndex_SomeD)
  with Some show ?thesis
    by (intro exI [of _ i]) (auto simp: calculateStudentProgress_def Let_def)
qed

lemma calculateStudentProgress_keeps:
  assumes "\<And>s x. f (s\<lparr>progress := (progress s)\<lparr>completionPercentage := x\<rparr>\<rparr>) = f s"
  shows "map f (students (snd (calculateStudentProgress sid c))) = map f (students c)"
proof -
  obtain j x where "students (snd (calculateStudentProgress sid c))
         = (if j < length (students c)
            then (students c)[j := (students c ! j)\<lparr>progress :=
                   (progress (students c ! j))\<lparr>completionPercentage := x\<rparr>\<rparr>]
            else students c)"
    using calculateStudentProgress_students by blast
  then show ?thesis
    by (auto simp: map_update assms list_update_same_conv)
qed


lemma progress_call_full:
  assumes "course_docs d cid = Some c"
    and "findIndex (approved_entry u) (students c) = Some i"
  shows "\<exists>c'. updateCourseProgress u cid r now d
                 = (Inr (progress (students c' ! i)),
                    d\<lparr>course_docs := (course_docs d)(cid \<mapsto> c')\<rparr>)
           \<and> findIndex (approved_entry u) (students c') = Some i
           \<and> completedLessons (progress (students c' ! i))
               = update_lessons r (completedLessons (progress (students c ! i)))"
proof -
  have i: "i < length (students c)" using assms(2) by (simp add: findIndex_SomeD)
  define p' where "p' = (progress (students c ! i))
       \<lparr>completedLessons := update_lessons r (completedLessons (progress (students c ! i))),
        completedModules := update_modules r (completedModules (progress (students c ! i))),
        lastAccessedAt := now\<rparr>"
  define c1 where "c1 = c\<lparr>students := (students c)[i := (students c ! i)\<lparr>progress := p'\<rparr>]\<rparr>"
  define c' where "c' = snd (calculateStudentProgress (user_id u) c1)"
  have res: "updateCourseProgress u cid r now d
                 = (Inr (progress (students c' ! i)),
                    d\<lparr>course_docs := (course_docs d)(cid \<mapsto> c')\<rparr>)"
    using assms by (simp add: updateCourseProgress_def Let_def c'_def c1_def p'_def)
  have a1: "map (approved_entry u) (students c1) = map (approved_entry u) (students c)"
    using i by (simp add: c1_def map_update approved_entry_def list_update_same_conv)
  have a2: "map (approved_entry u) (students c') = map (approved_entry u) (students c1)"
    unfolding c'_def by (rule calculateStudentProgress_keeps) (simp add: approved_entry_def)
  have fi: "findIndex (approved_entry u) (students c') = Some i"
    using findIndex_cong_map [of "approved_entry u" "students c'" "approved_entry u" "students c"]
      a1 a2 assms(2) by simp
  have l1: "map (\<lambda>s. completedLessons (progress s)) (students c')
          = map (\<lambda>s. completedLessons (progress s)) (students c1)"
    unfolding c'_def by (rule calculateStudentProgress_keeps) simp
  have i1: "i < length (students c')" using fi by (simp add: findIndex_SomeD)
  have "completedLessons (progress (students c' ! i)) = completedLessons (progress (students c1 ! i))"
    using map_eq_nth [of "\<lambda>s. completedLessons (progress s)" "students c'" "students c1" i] l1 i1
    by simp
  also have "\<dots> = update_lessons r (completedLessons (progress (students c ! i)))"
    using i by (simp add: c1_def p'_def)
  finally show ?thesis using res fi by blast
qed

lemma progress_call:
  assumes "course_docs d cid = Some c"
    and "findIndex (approved_entry u) (students c) = Some i"
  shows "\<exists>c'. course_docs (snd (updateCourseProgress u cid r now d)) cid = Some c'
           \<and> findIndex (approved_entry u) (students c') = Some i
           \<and> completedLessons (progress (students c' ! i))
               = update_lessons r (completedLessons (progress (students c ! i)))"
proof -
  obtain c' where "updateCourseProgress u cid r now d
                 = (Inr (progress (students c' ! i)),
                    d\<lparr>course_docs := (course_docs d)(cid \<mapsto> c')\<rparr>)"
      "findIndex (approved_entry u) (students c') = Some i"
      "completedLessons (progress (students c' ! i))
               = update_lessons r (completedLessons (progress (students c ! i)))"
    using progress_call_full [OF assms, of r now] by blast
  then show ?thesis by simp
qed

lemma toggle_member: "x \<in> set (toggle flag x xs) \<longleftrightarrow> flag"
  by (auto simp: toggle_def)

text \<open>Inserting keeps a list that has the element, removing keeps a list that lacks it.\<close>

lemma toggle_eq:
  "toggle flag x xs = (if flag then (if x \<in> set xs then xs else xs @ [x])
                       else filter (\<lambda>i. i \<noteq> x) xs)"
  by (simp add: toggle_def)

lemma toggle_noop: "(flag \<longleftrightarrow> x \<in> set xs) \<Longrightarrow> toggle flag x xs = xs"
  by (auto simp: toggle_def filter_id_conv)

lemma update_lessons_member:
  "lessonId r = Some l \<Longrightarrow> l \<noteq> [] \<Longrightarrow> l \<in> set (update_lessons r ls) \<longleftrightarrow> completed r"
  by (simp add: update_lessons_def toggle_member)

lemma update_lessons_eq:
  "lessonId r = Some l \<Longrightarrow> l \<noteq> [] \<Longrightarrow> update_lessons r ls = toggle (completed r) l ls"
  by (simp add: update_lessons_def)

lemma run_progress_keeps_entry:
  assumes "course_docs d cid = Some c"
    and "findIndex (approved_entry u) (students c) = Some i"
  shows "\<exists>c'. course_docs (run_progress u cid rs d) cid = Some c'
           \<and> findIndex (approved_entry u) (students c') = Some i"
  using assms
proof (induction rs arbitrary: d c)
  case Nil
  then show ?case by (simp add: run_progress_def)
next
  case (Cons x rs)
  obtain r now where x: "x = (r, now)" by (cases x)
  from progress_call [OF Cons.prems, of r now]
  obtain c1 where c1: "course_docs (snd (updateCourseProgress u cid r now d)) cid = Some c1"
    "findIndex (approved_entry u) (students c1) = Some i" by blast
  from Cons.IH [OF c1] show ?case
    by (simp add: run_progress_def x)
qed

lemma run_progress_snoc:
  "run_progress u cid (rs @ [(r, now)]) d
     = snd (updateCourseProgress u cid r now (run_progress u cid rs d))"
  by (simp add: run_progress_def)

text \<open>
  C7. For a student with an approved enrollment and a lesson identifier (a non-empty
  string): after any non-empty sequence of progress requests that carry this identifier,
  the identifier is in \<^verbatim>\<open>completedLessons\<close> exactly when the last request had
  \<^verbatim>\<open>completed\<close> true. Each such request is answered with the student's progress, not
  with a failure; it leaves the list as it is with the identifier appended when
  \<^verbatim>\<open>completed\<close> is true and the identifier is absent, removes every occurrence when
  \<^verbatim>\<open>completed\<close> is false, and changes nothing in the list when it inserts an identifier
  that is present or removes one that is absent.
\<close>

theorem lesson_membership_follows_last_call:
  assumes "course_docs d cid = Some c"
    and "findIndex (approved_entry u) (students c) = Some i"
    and "l \<noteq> []"
  shows "(rs \<noteq> [] \<and> (\<forall>(r, now)\<in>set rs. lessonId r = Some l) \<longrightarrow>
            (\<exists>c'. course_docs (run_progress u cid rs d) cid = Some c'
               \<and> findIndex (approved_entry u) (students c') = Some i
               \<and> (l \<in> set (completedLessons (progress (students c' ! i)))
                    \<longleftrightarrow> completed (fst (last rs)))))
       \<and> (lessonId r = Some l \<longrightarrow>
            (\<exists>c'. updateCourseProgress u cid r now d
                     = (Inr (progress (students c' ! i)),
                        d\<lparr>course_docs := (course_docs d)(cid \<mapsto> c')\<rparr>)
               \<and> completedLessons (progress (students c' ! i))
                   = (if completed r
                      then (if l \<in> set (completedLessons (progress (students c ! i)))
                            then completedLessons (progress (students c ! i))
                            else completedLessons (progress (students c ! i)) @ [l])
                      else filter (\<lambda>x. x \<noteq> l) (completedLessons (progress (students c ! i))))
               \<and> ((completed r \<longleftrightarrow> l \<in> set (completedLessons (progress (students c ! i))))
                    \<longrightarrow> completedLessons (progress (students c' ! i))
                          = completedLessons (progress (students c ! i)))))"
proof (intro conjI impI)
  assume a: "rs \<noteq> [] \<and> (\<forall>(r, now)\<in>set rs. lessonId r = Some l)"
  obtain rs' x where rs: "rs = rs' @ [x]"
    using a by (cases rs rule: rev_cases) auto
  obtain r0 now0 where x: "x = (r0, now0)" by (cases x)
  have lr: "lessonId r0 = Some l" using a rs x by auto
  from run_progress_keeps_entry [OF assms(1) assms(2), of rs']
  obtain c1 where c1: "course_docs (run_progress u cid rs' d) cid = Some c1"
    "findIndex (approved_entry u) (students c1) = Some i" by blast
  from progress_call [OF c1, of r0 now0]
  obtain c' where c': "course_docs (snd (updateCourseProgress u cid r0 now0 (run_progress u cid rs' d))) cid = Some c'"
    "findIndex (approved_entry u) (students c') = Some i"
    "completedLessons (progress (students c' ! i))
               = update_lessons r0 (completedLessons (progress (students c1 ! i)))" by blast
  show "\<exists>c'. course_docs (run_progress u cid rs d) cid = Some c'
               \<and> findIndex (approved_entry u) (students c') = Some i
               \<and> (l \<in> set (completedLessons (progress (students c' ! i)))
                    \<longleftrightarrow> completed (fst (last rs)))"
    using c' lr assms(3)
    by (simp add: rs x run_progress_snoc update_lessons_member)
next
  assume lr: "lessonId r = Some l"
  obtain c' where c': "updateCourseProgress u cid r now d
                 = (Inr (progress (students c' ! i)),
                    d\<lparr>course_docs := (course_docs d)(cid \<mapsto> c')\<rparr>)"
      "completedLessons (progress (students c' ! i))
               = update_lessons r (completedLessons (progress (students c ! i)))"
    using progress_call_full [OF assms(1) assms(2), of r now] by blast
  have t: "update_lessons r (completedLessons (progress (students c ! i)))
           = toggle (completed r) l (completedLessons (progress (students c ! i)))"
    using lr assms(3) by (rule update_lessons_eq)
  have e: "completedLessons (progress (students c' ! i))
                   = (if completed r
                      then (if l \<in> set (completedLessons (progress (students c ! i)))
                            then completedLessons (progress (students c ! i))
                            else completedLessons (progress (students c ! i)) @ [l])
                      else filter (\<lambda>x. x \<noteq> l) (completedLessons (progress (students c ! i))))"
    unfolding c'(2) t by (rule toggle_eq)
  have n: "(completed r \<longleftrightarrow> l \<in> set (completedLessons (progress (students c ! i))))
                    \<longrightarrow> completedLessons (progress (students c' ! i))
                          = completedLessons (progress (students c ! i))"
    unfolding c'(2) t by (simp add: toggle_noop)
  show "\<exists>c'. updateCourseProgress u cid r now d
                     = (Inr (progress (students c' ! i)),
                        d\<lparr>course_docs := (course_docs d)(cid \<mapsto> c')\<rparr>)
               \<and> completedLessons (progress (students c' ! i))
                   = (if completed r
                      then (if l \<in> set (completedLessons (progress (students c ! i)))
                            then completedLessons (progress (students c ! i))
                            else completedLessons (progress (students c ! i)) @ [l])
                      else filter (\<lambda>x. x \<noteq> l) (completedLessons (progress (students c ! i))))
               \<and> ((completed r \<longleftrightarrow> l \<in> set (completedLessons (progress (students c ! i))))
                    \<longrightarrow> completedLessons (progress (students c' ! i))
                          = completedLessons (progress (students c ! i)))"
    using c'(1) e n by blast
qed

lemma course1_entry:
  "course_docs db1 ''c1'' = Some course1"
  "findIndex (approved_entry student1) (students course1) = Some 0"
  by (simp_all add: db1_def course1_def approved_entry_def student1_def)

theorem lesson_membership_follows_last_call_witness:
  "(\<exists>c'. course_docs
           (run_progress student1 ''c1''
              [(\<lparr>lessonId = Some ''01'', moduleIndex = None, completed = True\<rparr>, 1),
               (\<lparr>lessonId = Some ''01'', moduleIndex = None, completed = False\<rparr>, 2),
               (\<lparr>lessonId = Some ''01'', moduleIndex = Some 1, completed = True\<rparr>, 3)] db1) ''c1''
         = Some c'
       \<and> ''01'' \<in> set (completedLessons (progress (students c' ! 0))))
   \<and> (\<exists>c'. updateCourseProgress student1 ''c1''
               \<lparr>lessonId = Some ''01'', moduleIndex = None, completed = False\<rparr> 9 db1
             = (Inr (progress (students c' ! 0)),
                db1\<lparr>course_docs := (course_docs db1)(''c1'' \<mapsto> c')\<rparr>)
           \<and> completedLessons (progress (students c' ! 0)) = [])
   \<and> (\<exists>c'. updateCourseProgress student1 ''c1''
               \<lparr>lessonId = Some ''01'', moduleIndex = None, completed = True\<rparr> 9 db1
             = (Inr (progress (students c' ! 0)),
                db1\<lparr>course_docs := (course_docs db1)(''c1'' \<mapsto> c')\<rparr>)
           \<and> completedLessons (progress (students c' ! 0)) = [''01''])"
proof -
  have l: "''01'' \<noteq> []" by simp
  have cl: "completedLessons (progress (students course1 ! 0)) = []"
    by (simp add: course1_def progress0_def)
  note T = lesson_membership_follows_last_call [OF course1_entry l]
  have 1: "\<exists>c'. course_docs
           (run_progress student1 ''c1''
              [(\<lparr>lessonId = Some ''01'', moduleIndex = None, completed = True\<rparr>, 1),
               (\<lparr>lessonId = Some ''01'', moduleIndex = None, completed = False\<rparr>, 2),
               (\<lparr>lessonId = Some ''01'', moduleIndex = Some 1, completed = True\<rparr>, 3)] db1) ''c1''
         = Some c'
       \<and> ''01'' \<in> set (completedLessons (progress (students c' ! 0)))"
    using T [of "[(\<lparr>lessonId = Some ''01'', moduleIndex = None, completed = True\<rparr>, 1),
               (\<lparr>lessonId = Some ''01'', moduleIndex = None, completed = False\<rparr>, 2),
               (\<lparr>lessonId = Some ''01'', moduleIndex = Some 1, completed = True\<rparr>, 3)]"]
    by auto
  have 2: "\<exists>c'. updateCourseProgress student1 ''c1''
               \<lparr>lessonId = Some ''01'', moduleIndex = None, completed = False\<rparr> 9 db1
             = (Inr (progress (students c' ! 0)),
                db1\<lparr>course_docs := (course_docs db1)(''c1'' \<mapsto> c')\<rparr>)
           \<and> completedLessons (progress (students c' ! 0)) = []"
    using T [of _ "\<lparr>lessonId = Some ''01'', moduleIndex = None, completed = False\<rparr>" 9]
    by (auto simp: cl)
  have 3: "\<exists>c'. updateCourseProgress student1 ''c1''
               \<lparr>lessonId = Some ''01'', moduleIndex = None, completed = True\<rparr> 9 db1
             = (Inr (progress (students c' ! 0)),
                db1\<lparr>course_docs := (course_docs db1)(''c1'' \<mapsto> c')\<rparr>)
           \<and> completedLessons (progress (students c' ! 0)) = [''01'']"
    using T [of _ "\<lparr>lessonId = Some ''01'', moduleIndex = None, completed = True\<rparr>" 9]
    by (auto simp: cl)
  show ?thesis using 1 2 3 by blast
qed

section \<open>What the completion percentage can be\<close>

lemma Math_round_range:
  assumes "0 \<le> r" and "r \<le> 100"
  shows "\<exists>n. Math_round (Fin r) = Fin (of_int n) \<and> 0 \<le> n \<and> n \<le> 100"
proof -
  have "0 \<le> \<lfloor>r + 1 / 2\<rfloor>" using assms(1) by (simp add: le_floor_iff)
  moreover have "\<lfloor>r + 1 / 2\<rfloor> \<le> 100" using assms(2) by (simp add: floor_le_iff)
  ultimately show ?thesis by simp
qed

lemma fl_unit_interval:
  assumes "0 \<le> x" and "x \<le> 1"
  shows "\<exists>r. fl x = Fin r \<and> 0 \<le> r \<and> r \<le> 1"
proof (cases "x = 0")
  case True
  then show ?thesis by (simp add: fl_def)
next
  case False
  with assms(1) have "0 < x" by simp
  moreover have "x \<le> of_int 1" using assms(2) by simp
  ultimately show ?thesis using fl_le_int [of x 1] by simp
qed

lemma fl_times_100:
  assumes "0 \<le> r" and "r \<le> 1"
  shows "\<exists>s. fl (r * 100) = Fin s \<and> 0 \<le> s \<and> s \<le> 100"
proof (cases "r = 0")
  case True
  then show ?thesis by (simp add: fl_def)
next
  case False
  with assms(1) have "0 < r * 100" by simp
  moreover have "r * 100 \<le> of_int 100" using assms(2) by simp
  ultimately show ?thesis using fl_le_int [of "r * 100" 100] by simp
qed

lemma percentage_of_range:
  assumes "completedItems \<le> totalRequiredItems"
  shows "\<exists>n. percentage_of (totalRequiredItems, completedItems) = Fin (of_int n) \<and> 0 \<le> n \<and> n \<le> 100"
proof (cases "0 < totalRequiredItems")
  case False
  then have "percentage_of (totalRequiredItems, completedItems) = Fin (of_int 0)"
    by (simp add: percentage_of_def)
  then show ?thesis by (intro exI [of _ 0]) simp
next
  case True
  define x :: rat where "x = of_nat completedItems / of_nat totalRequiredItems"
  have x: "0 \<le> x" "x \<le> 1" using assms True by (simp_all add: x_def)
  obtain r where r: "fl x = Fin r" "0 \<le> r" "r \<le> 1"
    using fl_unit_interval [OF x] by blast
  obtain s where s: "fl (r * 100) = Fin s" "0 \<le> s" "s \<le> 100"
    using fl_times_100 [OF r(2) r(3)] by blast
  have "percentage_of (totalRequiredItems, completedItems) = Math_round (Fin s)"
    using True r(1) s(1) by (simp add: percentage_of_def num_of_nat_def x_def)
  then show ?thesis using Math_round_range [OF s(2) s(3)] by simp
qed

lemma percentage_of_no_items: "percentage_of (0, completedItems) = Fin 0"
  by (simp add: percentage_of_def)

lemma fold_count_material:
  "fold (count_material lessons) ms (t, c) =
     (t + length (filter isRequired ms),
      c + length (filter (\<lambda>m. isRequired m \<and> material_id m \<in> set lessons) ms))"
  by (induction ms arbitrary: t c) (simp_all add: count_material_def)

lemma fold_count_modules:
  "fold (\<lambda>m. fold (count_material lessons) (materials m)) mods (t, c) =
     (t + length (filter isRequired (concat (map materials mods))),
      c + length (filter (\<lambda>m. isRequired m \<and> material_id m \<in> set lessons)
                    (concat (map materials mods))))"
  by (induction mods arbitrary: t c) (simp_all add: fold_count_material)

lemma fold_count_quiz:
  "fold (count_quiz scores) qs (t, c) =
     (t + length qs,
      c + length (filter (\<lambda>q. case find (\<lambda>s. quizId s = course_quiz_id q) scores of
                                 None \<Rightarrow> False
                               | Some quizScore \<Rightarrow> num_ge (quizScore_score quizScore) (course_quiz_passingScore q))
                    qs))"
  by (induction qs arbitrary: t c) (simp_all add: count_quiz_def split: option.splits)

text \<open>
  What the two iterations count: the required materials plus the quizzes, and among them the
  required materials listed in \<^verbatim>\<open>completedLessons\<close> plus the quizzes whose first recorded
  score is at least the passing score.
\<close>

lemma count_items_eq:
  "count_items c p =
     (length (filter isRequired (concat (map materials (modules c)))) + length (quizzes c),
      length (filter (\<lambda>m. isRequired m \<and> material_id m \<in> set (completedLessons p))
                (concat (map materials (modules c))))
      + length (filter (\<lambda>q. case find (\<lambda>s. quizId s = course_quiz_id q) (quizScores p) of
                               None \<Rightarrow> False
                             | Some quizScore \<Rightarrow> num_ge (quizScore_score quizScore) (course_quiz_passingScore q))
                  (quizzes c)))"
  by (simp add: count_items_def fold_count_modules fold_count_quiz)

lemma count_items_le: "snd (count_items c p) \<le> fst (count_items c p)"
proof -
  have "length (filter (\<lambda>m. isRequired m \<and> material_id m \<in> set (completedLessons p))
                (concat (map materials (modules c))))
        \<le> length (filter isRequired (concat (map materials (modules c))))"
  proof -
    have "filter (\<lambda>m. isRequired m \<and> material_id m \<in> set (completedLessons p))
                (concat (map materials (modules c)))
          = filter (\<lambda>m. material_id m \<in> set (completedLessons p))
              (filter isRequired (concat (map materials (modules c))))"
      by (simp add: conj_commute)
    then show ?thesis by (simp only: length_filter_le)
  qed
  then show ?thesis
    unfolding count_items_eq
    by (simp add: add_mono length_filter_le)
qed

text \<open>
  The method always returns an integer between 0 and 100, and 0 for a course without
  required materials and quizzes.
\<close>

lemma calculateStudentProgress_range:
  "\<exists>n. fst (calculateStudentProgress studentId c) = Fin (of_int n) \<and> 0 \<le> n \<and> n \<le> 100"
proof (cases "findIndex (\<lambda>s. enrolled_student s = studentId) (students c)")
  case None
  then have "fst (calculateStudentProgress studentId c) = Fin (of_int 0)"
    by (simp add: calculateStudentProgress_def)
  then show ?thesis by (intro exI [of _ 0]) simp
next
  case (Some i)
  obtain t k where tk: "count_items c (progress (students c ! i)) = (t, k)"
    by (cases "count_items c (progress (students c ! i))")
  have "k \<le> t" using count_items_le [of c "progress (students c ! i)"] tk by simp
  from percentage_of_range [OF this] tk Some show ?thesis
    by (simp add: calculateStudentProgress_def Let_def)
qed

lemma calculateStudentProgress_no_items:
  assumes "\<forall>m\<in>set (modules c). \<forall>x\<in>set (materials m). \<not> isRequired x" and "quizzes c = []"
  shows "fst (calculateStudentProgress studentId c) = Fin 0"
proof -
  have "filter isRequired (concat (map materials (modules c))) = []"
    using assms(1) by (auto simp: filter_empty_conv)
  then have "\<And>p. fst (count_items c p) = 0"
    using assms(2) by (simp add: count_items_eq)
  then have "\<And>p. percentage_of (count_items c p) = Fin 0"
    by (metis percentage_of_no_items prod.collapse)
  then show ?thesis
    by (simp add: calculateStudentProgress_def Let_def split: option.splits)
qed

text \<open>A quiz whose questions are all worth nothing is never passed: \<^verbatim>\<open>0 / 0\<close> is NaN.\<close>

lemma passes_zero_maxScore: "\<not> passes (Fin 0) (Fin 0) threshold"
  by (simp add: passes_def)

lemma gradeAnswers_zero_points:
  assumes "\<forall>q\<in>set qs. points q = Fin 0"
  shows "gradeAnswers qs index as (Fin 0) gradedAnswers = Inr (ts, ga) \<Longrightarrow> ts = Fin 0"
proof (induction as arbitrary: index gradedAnswers)
  case Nil
  then show ?case by simp
next
  case (Cons a as)
  from Cons.prems have i: "index < length qs" by (simp split: if_splits)
  then have "points (qs ! index) = Fin 0" using assms by simp
  then have e: "num_add (Fin 0) (if a = correctAnswer (qs ! index) then points (qs ! index) else Fin 0)
                = Fin 0"
    by (simp add: fl_def)
  from Cons.prems i
  have "gradeAnswers qs (index + 1) as (Fin 0)
          (gradedAnswers @
             [\<lparr>questionIndex = index, givenAnswer = a, isCorrect = (a = correctAnswer (qs ! index)),
               pointsEarned = (if a = correctAnswer (qs ! index) then points (qs ! index) else Fin 0)\<rparr>])
        = Inr (ts, ga)"
    by (simp add: Let_def e)
  then show ?case by (rule Cons.IH)
qed

lemma totalPoints_zero: "\<forall>q\<in>set qs. points q = Fin 0 \<Longrightarrow> totalPoints qs = Fin 0"
  unfolding totalPoints_def by (induction qs) (simp_all add: fl_def)

text \<open>
  So an attempt at a quiz without questions, or with questions worth no points, is graded
  as not passed, whatever the passing score.
\<close>

lemma zero_point_quiz_not_passed:
  assumes "\<forall>q\<in>set qs. points q = Fin 0" and "gradeAnswers qs 0 as (Fin 0) [] = Inr (ts, ga)"
  shows "\<not> passes ts (totalPoints qs) threshold"
  using gradeAnswers_zero_points [OF assms] totalPoints_zero [OF assms(1)]
  by (simp add: passes_zero_maxScore)

text \<open>
  It takes points that cancel (a question worth a negative number) to reach a
  \<^verbatim>\<open>maxScore\<close> of 0 with a score above it; the quotient is then \<open>+\<infinity>\<close> and the attempt
  passes.
\<close>

lemma positive_score_over_zero_passes: "passes (Fin 1) (Fin 0) (Fin 70)"
  by (simp add: passes_def)

section \<open>What a submission answers\<close>

text \<open>Every submission that passes is answered with status 500, and no course is written.\<close>

lemma submit_passed_answers_500:
  assumes "quiz_docs d qid = Some q"
    and "findIndex (open_attempt_of u) (attempts q) = Some i"
    and "gradeAnswers (questions q) 0 as (Fin 0) [] = Inr (ts, ga)"
    and "passes ts (totalPoints (questions q)) (passingScore q)"
  shows "fst (submitQuizAttempt u qid as t1 t2 t3 d) = Inl (ServerError ''Error submitting quiz attempt'')
       \<and> course_docs (snd (submitQuizAttempt u qid as t1 t2 t3 d)) = course_docs d"
  using assms by (simp add: submitQuizAttempt_def Let_def course_in_scope_def)

text \<open>A submission that does not pass is answered with the graded attempt and the summary.\<close>

lemma submit_failed_answers_summary:
  assumes "quiz_docs d qid = Some q"
    and "findIndex (open_attempt_of u) (attempts q) = Some i"
    and "gradeAnswers (questions q) 0 as (Fin 0) [] = Inr (ts, ga)"
    and "\<not> passes ts (totalPoints (questions q)) (passingScore q)"
  shows "\<exists>a. fst (submitQuizAttempt u qid as t1 t2 t3 d) =
            Inr \<lparr>data_attempt = a, data_score = ts, data_maxScore = totalPoints (questions q),
                 data_percentage = percentage ts (totalPoints (questions q)), data_passed = False\<rparr>
          \<and> score a = ts \<and> answers a = ga \<and> completedAt a = Some t1 \<and> \<not> passed a
          \<and> course_docs (snd (submitQuizAttempt u qid as t1 t2 t3 d)) = course_docs d"
  using assms by (simp add: submitQuizAttempt_def Let_def)

lemma findIndex_update_hit:
  "findIndex p xs = Some k \<Longrightarrow> p y \<Longrightarrow> find p (xs[k := y]) = Some y"
proof (induction xs arbitrary: k)
  case Nil
  then show ?case by simp
next
  case (Cons x xs)
  then show ?case by (cases k) (auto split: if_splits)
qed

lemma find_append_hit:
  "findIndex p xs = None \<Longrightarrow> p y \<Longrightarrow> find p (xs @ [y]) = Some y"
  by (induction xs) (auto split: if_splits)

text \<open>
  Had \<^verbatim>\<open>course\<close> been bound to a course that lists the student, the guarded statements
  would record the score as the first entry found for the quiz.
\<close>

lemma record_quiz_score_upserts:
  assumes "findIndex (\<lambda>s. enrolled_student s = userId) (students c) = Some j"
  shows "find (\<lambda>x. quizId x = qid)
           (quizScores (progress (students (record_quiz_score userId qid ts ms now c) ! j)))
         = Some \<lparr>quizId = qid, quizScore_score = ts, quizScore_maxScore = ms,
                  quizScore_completedAt = now\<rparr>"
proof -
  define quizScore where "quizScore = \<lparr>quizId = qid, quizScore_score = ts, quizScore_maxScore = ms,
                  quizScore_completedAt = now\<rparr>"
  define scores where "scores = quizScores (progress (students c ! j))"
  define scores' where "scores' = (case findIndex (\<lambda>x. quizId x = qid) scores of
                           Some existingScoreIndex \<Rightarrow> scores[existingScoreIndex := quizScore]
                         | None \<Rightarrow> scores @ [quizScore])"
  define c1 where "c1 = c\<lparr>students := (students c)
                         [j := (students c ! j)\<lparr>progress := (progress (students c ! j))\<lparr>quizScores := scores'\<rparr>\<rparr>]\<rparr>"
  have j: "j < length (students c)" using assms by (simp add: findIndex_SomeD)
  have r: "record_quiz_score userId qid ts ms now c = snd (calculateStudentProgress userId c1)"
    unfolding record_quiz_score_def c1_def scores'_def scores_def quizScore_def Let_def
    using assms by simp
  have k: "map (\<lambda>s. quizScores (progress s)) (students (snd (calculateStudentProgress userId c1)))
         = map (\<lambda>s. quizScores (progress s)) (students c1)"
    by (rule calculateStudentProgress_keeps) simp
  have l: "length (students (snd (calculateStudentProgress userId c1))) = length (students c1)"
    using k by (rule map_eq_imp_length_eq)
  have "quizScores (progress (students (snd (calculateStudentProgress userId c1)) ! j))
        = quizScores (progress (students c1 ! j))"
    using map_eq_nth [of "\<lambda>s. quizScores (progress s)"
            "students (snd (calculateStudentProgress userId c1))" "students c1" j] k l j
    by (simp add: c1_def)
  also have "\<dots> = scores'" using j by (simp add: c1_def)
  finally have q: "quizScores (progress (students (record_quiz_score userId qid ts ms now c) ! j)) = scores'"
    by (simp add: r)
  have p: "quizId quizScore = qid" by (simp add: quizScore_def)
  have "find (\<lambda>x. quizId x = qid) scores' = Some quizScore"
  proof (cases "findIndex (\<lambda>x. quizId x = qid) scores")
    case None
    then show ?thesis using p by (simp add: scores'_def find_append_hit)
  next
    case (Some k)
    then show ?thesis using p by (simp add: scores'_def findIndex_update_hit)
  qed
  then show ?thesis by (simp add: q quizScore_def)
qed

section \<open>Starting an attempt\<close>







end
